theory Spec2Isabelle
  imports Complex_Main
begin

section \<open>Vendor invoice engine: embedding of utils/invoice_data.py\<close>

text \<open>
  The module reads arrival-note lines, validates a selection, numbers an invoice and
  writes a purchase invoice (one header row, one detail row per line) inside a single
  database transaction. Python values that travel through dictionaries and DataFrame
  rows are dynamically typed; they are embedded as \<open>pyval\<close>. Python floats and SQL
  decimals are embedded as exact rationals, and \<open>round(x, 2)\<close> as rounding to two
  decimals with ties going to the even neighbour.
\<close>

subsection \<open>Python values, dictionaries and exceptions\<close>

datatype pyval = PyNone | PyNum rat | PyStr string

text \<open>A dict, or one row of a DataFrame: keys in insertion order.\<close>

type_synonym pydict = "(string \<times> pyval) list"

datatype exn =
    KeyError string
  | IndexError
  | ValueError
  | TypeError
  | AttributeError
  | DatabaseError

text \<open>\<open>str(e)\<close> of a caught exception, as it is spliced into the failure message.\<close>

fun exn_str :: "exn \<Rightarrow> string" where
  "exn_str (KeyError k) = [CHR 0x27] @ k @ [CHR 0x27]"
| "exn_str IndexError = ''list index out of range''"
| "exn_str ValueError = ''could not convert string to float''"
| "exn_str TypeError = ''unsupported operand type(s)''"
| "exn_str AttributeError = ''object has no attribute split''"
| "exn_str DatabaseError = ''database error''"

definition bind_exn :: "exn + 'a \<Rightarrow> ('a \<Rightarrow> exn + 'b) \<Rightarrow> exn + 'b" where
  "bind_exn m f = (case m of Inl e \<Rightarrow> Inl e | Inr x \<Rightarrow> f x)"

text \<open>\<open>d[k]\<close>: raises KeyError when the key (or column) is absent.\<close>

definition getitem :: "pydict \<Rightarrow> string \<Rightarrow> exn + pyval" where
  "getitem d k = (case map_of d k of None \<Rightarrow> Inl (KeyError k) | Some v \<Rightarrow> Inr v)"

text \<open>\<open>d.get(k)\<close>: None when the key is absent.\<close>

definition dict_get :: "pydict \<Rightarrow> string \<Rightarrow> pyval" where
  "dict_get d k = (case map_of d k of None \<Rightarrow> PyNone | Some v \<Rightarrow> v)"

text \<open>\<open>d.get(k, default)\<close>.\<close>

definition dict_get_default :: "pydict \<Rightarrow> string \<Rightarrow> pyval \<Rightarrow> pyval" where
  "dict_get_default d k dflt = (case map_of d k of None \<Rightarrow> dflt | Some v \<Rightarrow> v)"

text \<open>Truth value of an object in a condition.\<close>

fun truthy :: "pyval \<Rightarrow> bool" where
  "truthy PyNone = False"
| "truthy (PyNum r) = (r \<noteq> 0)"
| "truthy (PyStr s) = (s \<noteq> [])"

subsection \<open>Strings\<close>

text \<open>The characters \<open>str.split()\<close> treats as separators (ASCII range).\<close>

definition is_space :: "char \<Rightarrow> bool" where
  "is_space c = (c \<in> set [CHR 0x20, CHR 0x09, CHR 0x0A, CHR 0x0B, CHR 0x0C, CHR 0x0D,
                            CHR 0x1C, CHR 0x1D, CHR 0x1E, CHR 0x1F])"

text \<open>\<open>s.split()[0]\<close>: the first whitespace-delimited token; IndexError when there is none.\<close>

definition first_token :: "string \<Rightarrow> string option" where
  "first_token s =
     (let t = takeWhile (\<lambda>c. \<not> is_space c) (dropWhile is_space s)
      in if t = [] then None else Some t)"




definition is_digit :: "char \<Rightarrow> bool" where
  "is_digit c = (48 \<le> (of_char c :: nat) \<and> (of_char c :: nat) \<le> 57)"

definition digit_val :: "char \<Rightarrow> nat" where
  "digit_val c = of_char c - 48"

text \<open>
  The digit part of an integer literal accepted by \<open>int()\<close>: decimal digits, with single
  underscores allowed between two digits.
\<close>

fun int_digits :: "bool \<Rightarrow> nat \<Rightarrow> string \<Rightarrow> nat option" where
  "int_digits prev_digit acc [] = (if prev_digit then Some acc else None)"
| "int_digits prev_digit acc (c # cs) =
     (if is_digit c then int_digits True (acc * 10 + digit_val c) cs
      else if c = CHR ''_'' \<and> prev_digit then int_digits False acc cs
      else None)"


text \<open>Decimal rendering of a number, as \<open>str(n)\<close> and f-strings print an int.\<close>

definition digit_char :: "nat \<Rightarrow> char" where
  "digit_char d = char_of (48 + d)"

function show_nat :: "nat \<Rightarrow> string" where
  "show_nat n = (if n < 10 then [digit_char n] else show_nat (n div 10) @ [digit_char (n mod 10)])"
  by pat_completeness auto
termination
  by (relation "measure id") auto

declare show_nat.simps [simp del]

definition show_int :: "int \<Rightarrow> string" where
  "show_int i = (if i < 0 then CHR ''-'' # show_nat (nat (- i)) else show_nat (nat i))"

subsection \<open>Numbers\<close>

text \<open>\<open>round(x, 2)\<close>: the nearest multiple of 1/100, an exact tie going to the even one.\<close>

definition py_round2 :: "rat \<Rightarrow> rat" where
  "py_round2 x =
     (let s = x * 100; f = \<lfloor>s\<rfloor>; d = s - of_int f
      in of_int (if d < 1 / 2 then f
                 else if 1 / 2 < d then f + 1
                 else if even f then f else f + 1) / 100)"

subsection \<open>Term calculator\<close>



subsection \<open>Database and environment\<close>

text \<open>
  The tables the module touches. \<open>users\<close> holds the rows of the join of users and
  employees; \<open>purchase_invoices\<close> pairs each header's id with its columns;
  \<open>invoice_auto_increment\<close> is the id the next inserted header receives
  (\<open>result.lastrowid\<close>).
\<close>

record user_row =
  username :: string
  user_delete_flag :: int
  keycloak_id :: pyval

record ppo_row =
  ppo_id :: int
  vat_gst :: "rat option"
  ppo_delete_flag :: int

record can_row =
  can_line_id :: int
  vendor_code :: string
  vendor_type :: string
  legal_entity_code :: string
  product_purchase_order_id :: int
  uninvoiced_quantity :: rat
  po_line_pending_invoiced_qty :: rat

record an_line = can_row +
  true_remaining_qty :: rat

record db =
  users :: "user_row list"
  product_purchase_orders :: "ppo_row list"
  can_tracking_full_view :: "can_row list"
  purchase_invoices :: "(int \<times> pydict) list"
  purchase_invoice_details :: "pydict list"
  invoice_auto_increment :: int

text \<open>
  Statements sent to the database. Each may be rejected (constraint violation, lost
  connection); \<open>fault\<close> says which. Line statements carry the position of the line.
\<close>

datatype stmt =
    Connect
  | SelectUninvoiced
  | SelectMaxId
  | SelectKeycloak string
  | InsertHeader pydict
  | SelectVat nat pyval
  | InsertDetail nat pydict
  | Commit

text \<open>
  What the code takes from outside: \<open>pyfloat\<close> is the builtin \<open>float()\<close> on a token
  (None for ValueError), \<open>num_str\<close> is \<open>str()\<close> of a number, \<open>now\<close> is the server's
  \<open>NOW()\<close>.
\<close>

record env =
  pyfloat :: "string \<Rightarrow> rat option"
  num_str :: "rat \<Rightarrow> string"
  fault :: "stmt \<Rightarrow> bool"
  now :: pyval

fun py_str :: "env \<Rightarrow> pyval \<Rightarrow> string" where
  "py_str env PyNone = ''None''"
| "py_str env (PyNum r) = num_str env r"
| "py_str env (PyStr s) = s"

subsection \<open>Arrival lines with uninvoiced quantity\<close>

text \<open>
  \<open>get_uninvoiced_ans\<close>: the view joined with its purchase-order line, restricted to
  \<open>uninvoiced_quantity > 0\<close> and to the optional filter conditions \<open>conds\<close>; the
  selected column \<open>true_remaining_qty\<close> is \<open>GREATEST(0, LEAST(uninvoiced_quantity,
  po_line_pending_invoiced_qty))\<close>. Any exception yields the empty frame. The ORDER BY
  clause only permutes the rows and is left out.
\<close>

definition select_an_line :: "can_row \<Rightarrow> an_line" where
  "select_an_line r =
     can_row.extend r
       (an_line.fields (max 0 (min (uninvoiced_quantity r) (po_line_pending_invoiced_qty r))))"

definition get_uninvoiced_ans :: "env \<Rightarrow> db \<Rightarrow> (can_row \<Rightarrow> bool) \<Rightarrow> an_line list" where
  "get_uninvoiced_ans env d conds =
     (if fault env Connect \<or> fault env SelectUninvoiced then []
      else concat (map (\<lambda>r. map (\<lambda>p. select_an_line r)
                                 (filter (\<lambda>p. ppo_id p = product_purchase_order_id r)
                                         (product_purchase_orders d)))
                       (filter (\<lambda>r. 0 < uninvoiced_quantity r \<and> conds r)
                               (can_tracking_full_view d))))"

subsection \<open>Selection validation\<close>

text \<open>\<open>Series.unique()\<close>: the distinct values in order of first appearance.\<close>

function unique :: "'a list \<Rightarrow> 'a list" where
  "unique [] = []"
| "unique (x # xs) = x # unique (filter (\<lambda>y. y \<noteq> x) xs)"
  by pat_completeness auto
termination
  by (relation "measure length") (auto simp: less_Suc_eq_le)

text \<open>\<open>sep.join(xs)\<close>.\<close>

fun join :: "string \<Rightarrow> string list \<Rightarrow> string" where
  "join sep [] = []"
| "join sep [x] = x"
| "join sep (x # y # ys) = x @ sep @ join sep (y # ys)"

definition validate_invoice_selection :: "an_line list \<Rightarrow> bool \<times> string" where
  "validate_invoice_selection selected_df =
     (if selected_df = [] then (False, ''No items selected'')
      else
        let vendors = unique (map vendor_code selected_df) in
        if 1 < length vendors then
          (False, ''Multiple vendors selected: '' @ join '', '' vendors
                    @ ''. Please select ANs from a single vendor.'')
        else
          let vendor_types = unique (map vendor_type selected_df) in
          if 1 < length vendor_types then
            (False, ''Cannot mix Internal and External vendors in the same invoice'')
          else
            let entities = unique (map legal_entity_code selected_df) in
            if 1 < length entities then
              (False, ''Multiple legal entities selected: '' @ join '', '' entities
                        @ ''. Please select ANs from a single entity.'')
            else (True, []))"

subsection \<open>Invoice number generator\<close>

record datetime =
  year :: nat
  month :: nat
  day :: nat
  hour :: nat
  minute :: nat
  second :: nat

text \<open>Zero-padded decimal fields of \<open>strftime\<close>.\<close>

definition pad :: "nat \<Rightarrow> nat \<Rightarrow> string" where
  "pad w n = replicate (w - length (show_nat n)) CHR ''0'' @ show_nat n"

definition strftime_Ymd :: "datetime \<Rightarrow> string" where
  "strftime_Ymd t = pad 4 (year t) @ pad 2 (month t) @ pad 2 (day t)"

definition strftime_HMS :: "datetime \<Rightarrow> string" where
  "strftime_HMS t = pad 2 (hour t) @ pad 2 (minute t) @ pad 2 (second t)"

text \<open>\<open>SELECT MAX(id) FROM purchase_invoices\<close>: NULL on an empty table.\<close>

definition max_invoice_id :: "db \<Rightarrow> int option" where
  "max_invoice_id d =
     (case map fst (purchase_invoices d) of
        [] \<Rightarrow> None
      | i # ids \<Rightarrow> Some (fold max ids i))"

text \<open>
  \<open>generate_invoice_number\<close>. \<open>clock k\<close> is the value of the k-th call of
  \<open>datetime.now()\<close>. When the connection or the query fails, the except branch builds
  the number from the time of day instead of the sequence.
\<close>

definition generate_invoice_number ::
  "env \<Rightarrow> (nat \<Rightarrow> datetime) \<Rightarrow> db \<Rightarrow> int option \<Rightarrow> int option \<Rightarrow> bool \<Rightarrow> string" where
  "generate_invoice_number env clock d vendor_id buyer_id is_advance_payment =
     (let vendor = (case vendor_id of None \<Rightarrow> 0 | Some v \<Rightarrow> v);
          buyer = (case buyer_id of None \<Rightarrow> 0 | Some b \<Rightarrow> b);
          suffix = (if is_advance_payment then ''A'' else ''P'')
      in if fault env Connect \<or> fault env SelectMaxId then
           ''V-INV'' @ strftime_Ymd (clock 2) @ ''-'' @ show_int vendor @ show_int buyer
             @ strftime_HMS (clock 1) @ ''-'' @ suffix
         else
           let last_id = (case max_invoice_id d of
                            None \<Rightarrow> 0
                          | Some m \<Rightarrow> if m \<noteq> 0 then m else 0);
               seq = last_id + 1
           in ''V-INV'' @ strftime_Ymd (clock 0) @ ''-'' @ show_int vendor @ show_int buyer
                @ show_int seq @ ''-'' @ suffix)"

text \<open>
  The number in the specification's words: date, vendor id, buyer id, a sequence that
  is one more than the largest existing invoice id (0 when there is none), and the
  suffix \<open>A\<close> for an advance payment, \<open>P\<close> otherwise.
\<close>

definition invoice_number_spec :: "datetime \<Rightarrow> db \<Rightarrow> int \<Rightarrow> int \<Rightarrow> bool \<Rightarrow> string" where
  "invoice_number_spec today d vendor buyer is_advance_payment =
     ''V-INV'' @ strftime_Ymd today @ ''-'' @ show_int vendor @ show_int buyer
       @ show_int (1 + (if purchase_invoices d = [] then 0
                        else Max (fst ` set (purchase_invoices d))))
       @ ''-'' @ (if is_advance_payment then ''A'' else ''P'')"

subsection \<open>Invoice persistence transaction\<close>

type_synonym result = "bool \<times> string \<times> int option"

text \<open>The keycloak query's \<open>fetchone()\<close>.\<close>

definition resolve_creator :: "db \<Rightarrow> string \<Rightarrow> pyval option" where
  "resolve_creator d user_id =
     (case filter (\<lambda>u. username u = user_id \<and> user_delete_flag u = 0) (users d) of
        [] \<Rightarrow> None
      | u # _ \<Rightarrow> Some (keycloak_id u))"

text \<open>\<open>float(row['buying_unit_cost'].split()[0])\<close>.\<close>

definition unit_cost_of :: "env \<Rightarrow> pydict \<Rightarrow> exn + rat" where
  "unit_cost_of env row =
     bind_exn (getitem row ''buying_unit_cost'') (\<lambda>unit_cost_str.
       case unit_cost_str of
         PyStr s \<Rightarrow>
           (case first_token s of
              None \<Rightarrow> Inl IndexError
            | Some t \<Rightarrow> (case pyfloat env t of None \<Rightarrow> Inl ValueError | Some c \<Rightarrow> Inr c))
       | _ \<Rightarrow> Inl AttributeError)"

text \<open>A float times an object: defined for numbers only.\<close>

fun py_mul :: "rat \<Rightarrow> pyval \<Rightarrow> exn + rat" where
  "py_mul a (PyNum b) = Inr (a * b)"
| "py_mul a PyNone = Inl TypeError"
| "py_mul a (PyStr s) = Inl TypeError"

text \<open>First pass: \<open>unit_cost * quantity * po_to_invoice_rate\<close> of one line, and the
  running total.\<close>

definition line_base :: "env \<Rightarrow> pyval \<Rightarrow> pydict \<Rightarrow> exn + rat" where
  "line_base env rate row =
     bind_exn (unit_cost_of env row) (\<lambda>unit_cost.
     bind_exn (getitem row ''uninvoiced_quantity'') (\<lambda>quantity.
     bind_exn (py_mul unit_cost quantity) (\<lambda>cq.
       py_mul cq rate)))"

fun sum_base :: "env \<Rightarrow> pyval \<Rightarrow> pydict list \<Rightarrow> rat \<Rightarrow> exn + rat" where
  "sum_base env rate [] total_amount = Inr total_amount"
| "sum_base env rate (row # rows) total_amount =
     bind_exn (line_base env rate row) (\<lambda>b. sum_base env rate rows (total_amount + b))"

definition add_if :: "bool \<Rightarrow> string \<Rightarrow> pyval \<Rightarrow> pydict \<Rightarrow> pydict" where
  "add_if c k v d = (if c then d @ [(k, v)] else d)"

text \<open>The header's parameters: required keys first, optional ones when present.\<close>

definition header_params :: "pydict \<Rightarrow> rat \<Rightarrow> pyval \<Rightarrow> exn + pydict" where
  "header_params invoice_data total_amount_exclude_vat keycloak =
     bind_exn (getitem invoice_data ''invoice_number'') (\<lambda>invoice_number.
     bind_exn (getitem invoice_data ''invoiced_date'') (\<lambda>invoiced_date.
     bind_exn (getitem invoice_data ''due_date'') (\<lambda>due_date.
     bind_exn (getitem invoice_data ''total_invoiced_amount'') (\<lambda>total_invoiced_amount.
     bind_exn (getitem invoice_data ''seller_id'') (\<lambda>seller_id.
     bind_exn (getitem invoice_data ''buyer_id'') (\<lambda>buyer_id.
     bind_exn (getitem invoice_data ''currency_id'') (\<lambda>currency_id.
     bind_exn (getitem invoice_data ''payment_term_id'') (\<lambda>payment_term_id.
       Inr
        (add_if (dict_get invoice_data ''advance_payment'' \<noteq> PyNone)
           ''advance_payment'' (dict_get invoice_data ''advance_payment'')
        (add_if (dict_get invoice_data ''email_to_accountant'' \<noteq> PyNone)
           ''email_to_accountant'' (dict_get invoice_data ''email_to_accountant'')
        (add_if (truthy (dict_get invoice_data ''invoice_type''))
           ''invoice_type'' (dict_get invoice_data ''invoice_type'')
        (add_if (dict_get invoice_data ''usd_exchange_rate'' \<noteq> PyNone)
           ''usd_exchange_rate'' (dict_get invoice_data ''usd_exchange_rate'')
        (add_if (truthy (dict_get invoice_data ''commercial_invoice_no''))
           ''commercial_invoice_no'' (dict_get invoice_data ''commercial_invoice_no'')
           [(''invoice_number'', invoice_number),
            (''invoiced_date'', invoiced_date),
            (''due_date'', due_date),
            (''total_invoiced_amount'', total_invoiced_amount),
            (''total_invoiced_amount_exclude_vat'', PyNum (py_round2 total_amount_exclude_vat)),
            (''seller_id'', seller_id),
            (''buyer_id'', buyer_id),
            (''currency_id'', currency_id),
            (''payment_term_id'', payment_term_id),
            (''created_by'', keycloak)])))))))))))))"

text \<open>
  The write-time VAT query's \<open>fetchone()\<close>: no row, or the row's \<open>vat_gst\<close> (NULL is
  None).
\<close>

definition vat_lookup :: "db \<Rightarrow> pyval \<Rightarrow> rat option option" where
  "vat_lookup d ppo =
     (case filter (\<lambda>p. PyNum (of_int (ppo_id p)) = ppo \<and> ppo_delete_flag p = 0)
                  (product_purchase_orders d) of
        [] \<Rightarrow> None
      | p # _ \<Rightarrow> Some (vat_gst p))"

definition vat_percent_of :: "env \<Rightarrow> db \<Rightarrow> nat \<Rightarrow> pydict \<Rightarrow> exn + rat" where
  "vat_percent_of env d k row =
     (if map_of row ''product_purchase_order_id'' \<noteq> None
         \<and> truthy (dict_get row ''product_purchase_order_id'')
      then
        if fault env (SelectVat k (dict_get row ''product_purchase_order_id''))
        then Inl DatabaseError
        else (case vat_lookup d (dict_get row ''product_purchase_order_id'') of
                Some (Some v) \<Rightarrow> Inr v
              | _ \<Rightarrow> Inr 0)
      else Inr 0)"

text \<open>The parameters of the detail insert for line \<open>k\<close>.\<close>

definition detail_params :: "env \<Rightarrow> db \<Rightarrow> pyval \<Rightarrow> int \<Rightarrow> nat \<Rightarrow> pydict \<Rightarrow> exn + pydict" where
  "detail_params env d rate invoice_id k row =
     bind_exn (unit_cost_of env row) (\<lambda>unit_cost.
     bind_exn (vat_percent_of env d k row) (\<lambda>vat_percent.
     bind_exn (getitem row ''uninvoiced_quantity'') (\<lambda>quantity.
     bind_exn (py_mul unit_cost quantity) (\<lambda>cq.
     bind_exn (py_mul cq rate) (\<lambda>base.
       let amount_exclude_vat = py_round2 base;
           vat_multiplier = 1 + vat_percent / 100;
           amount_include_vat = py_round2 (amount_exclude_vat * vat_multiplier)
       in
     bind_exn (getitem row ''purchase_order_id'') (\<lambda>purchase_order_id.
     bind_exn (getitem row ''product_purchase_order_id'') (\<lambda>ppo_id.
     bind_exn (getitem row ''arrival_detail_id'') (\<lambda>arrival_detail_id.
       Inr [(''purchase_invoice_id'', PyNum (of_int invoice_id)),
            (''purchase_order_id'', purchase_order_id),
            (''product_purchase_order_id'', ppo_id),
            (''arrival_detail_id'', arrival_detail_id),
            (''purchased_invoice_quantity'', quantity),
            (''invoiced_quantity'', quantity),
            (''amount'', PyNum amount_include_vat),
            (''amount_exclude_vat'', PyNum amount_exclude_vat),
            (''vat_gst'', PyNum vat_percent),
            (''exchange_rate'', rate)]))))))))"

text \<open>
  The rows as the INSERT statements store them: the parameters, and the columns the
  statements set themselves (\<open>created_date = NOW()\<close>, \<open>delete_flag = 0\<close>).
\<close>

definition stored_header :: "env \<Rightarrow> pydict \<Rightarrow> pydict" where
  "stored_header env hp = hp @ [(''created_date'', now env), (''delete_flag'', PyNum 0)]"

definition stored_detail :: "pydict \<Rightarrow> pydict" where
  "stored_detail p = p @ [(''delete_flag'', PyNum 0)]"

text \<open>Second pass: one insert per line, appended to the details table.\<close>

fun insert_lines ::
  "env \<Rightarrow> db \<Rightarrow> pyval \<Rightarrow> int \<Rightarrow> nat \<Rightarrow> pydict list \<Rightarrow> pydict list \<Rightarrow> exn + pydict list" where
  "insert_lines env d rate invoice_id k [] tbl = Inr tbl"
| "insert_lines env d rate invoice_id k (row # rows) tbl =
     bind_exn (detail_params env d rate invoice_id k row) (\<lambda>p.
       if fault env (InsertDetail k p) then Inl DatabaseError
       else insert_lines env d rate invoice_id (Suc k) rows
              (tbl @ [stored_detail p]))"

text \<open>
  The success log line formats \<open>total_invoiced_amount\<close> with \<open>:,.2f\<close> and reads
  \<open>invoice_currency_code\<close>; both can raise inside the transaction.
\<close>

definition log_success :: "pydict \<Rightarrow> exn + unit" where
  "log_success invoice_data =
     bind_exn (getitem invoice_data ''invoice_number'') (\<lambda>invoice_number.
     bind_exn (getitem invoice_data ''total_invoiced_amount'') (\<lambda>amount.
       case amount of
         PyNone \<Rightarrow> Inl TypeError
       | PyStr s \<Rightarrow> Inl ValueError
       | PyNum r \<Rightarrow> bind_exn (getitem invoice_data ''invoice_currency_code'') (\<lambda>code. Inr ())))"

text \<open>The body of the \<open>with engine.begin()\<close> block: the value returned and the tables as
  the open transaction sees them, or the exception that leaves the block.\<close>

definition transaction_body ::
  "env \<Rightarrow> db \<Rightarrow> pydict \<Rightarrow> pydict list \<Rightarrow> string \<Rightarrow> exn + (result \<times> db)" where
  "transaction_body env d invoice_data details_df user_id =
     (if fault env (SelectKeycloak user_id) then Inl DatabaseError
      else
        case resolve_creator d user_id of
          None \<Rightarrow> Inr ((False, ''Invalid user: '' @ user_id, None), d)
        | Some keycloak \<Rightarrow>
            let po_to_invoice_rate = dict_get_default invoice_data ''po_to_invoice_rate'' (PyNum 1)
            in
            bind_exn (sum_base env po_to_invoice_rate details_df 0) (\<lambda>total_amount_exclude_vat.
            bind_exn (header_params invoice_data total_amount_exclude_vat keycloak) (\<lambda>hp.
              if fault env (InsertHeader hp) then Inl DatabaseError
              else
                let invoice_id = invoice_auto_increment d;
                    header = stored_header env hp
                in
                bind_exn (insert_lines env d po_to_invoice_rate invoice_id 0 details_df
                            (purchase_invoice_details d)) (\<lambda>tbl.
                bind_exn (log_success invoice_data) (\<lambda>u.
                bind_exn (getitem invoice_data ''invoice_number'') (\<lambda>invoice_number.
                  Inr ((True,
                        ''Invoice '' @ py_str env invoice_number @ '' created successfully'',
                        Some invoice_id),
                       d\<lparr>purchase_invoices := purchase_invoices d @ [(invoice_id, header)],
                         purchase_invoice_details := tbl,
                         invoice_auto_increment := invoice_id + 1\<rparr>)))))))"

text \<open>
  \<open>create_purchase_invoice\<close>. \<open>engine.begin()\<close> opens the connection; leaving the
  block normally commits, leaving it by an exception rolls back; the except clause
  turns every exception into the failure triple.
\<close>

definition create_purchase_invoice ::
  "env \<Rightarrow> db \<Rightarrow> pydict \<Rightarrow> pydict list \<Rightarrow> string \<Rightarrow> result \<times> db" where
  "create_purchase_invoice env d invoice_data details_df user_id =
     (if fault env Connect
      then ((False, ''Error creating invoice: '' @ exn_str DatabaseError, None), d)
      else
        case transaction_body env d invoice_data details_df user_id of
          Inl e \<Rightarrow> ((False, ''Error creating invoice: '' @ exn_str e, None), d)
        | Inr (res, d') \<Rightarrow>
            if fault env Commit
            then ((False, ''Error creating invoice: '' @ exn_str DatabaseError, None), d)
            else (res, d'))"

subsection \<open>Submission from the confirmation step\<close>

text \<open>\<open>df.drop_duplicates(subset=[col])\<close>: the first row of each value of the column.\<close>

function drop_duplicates :: "string \<Rightarrow> pydict list \<Rightarrow> pydict list" where
  "drop_duplicates col [] = []"
| "drop_duplicates col (row # rows) =
     row # drop_duplicates col (filter (\<lambda>r. map_of r col \<noteq> map_of row col) rows)"
  by pat_completeness auto
termination
  by (relation "measure (\<lambda>(col, rows). length rows)") (auto simp: less_Suc_eq_le)

text \<open>
  The "Create Invoice" button of \<open>show_invoice_confirm\<close>: a final
  \<open>drop_duplicates(subset=['arrival_detail_id'])\<close>, then \<open>create_purchase_invoice\<close>.
  A frame without the column makes \<open>drop_duplicates\<close> raise KeyError, which the page
  reports as an error.
\<close>

definition confirm_create_invoice ::
  "env \<Rightarrow> db \<Rightarrow> pydict \<Rightarrow> pydict list \<Rightarrow> string \<Rightarrow> result \<times> db" where
  "confirm_create_invoice env d invoice_data details_df user_name =
     (if list_ex (\<lambda>r. map_of r ''arrival_detail_id'' = None) details_df
      then ((False, ''Error creating invoice: '' @ exn_str (KeyError ''arrival_detail_id''), None), d)
      else create_purchase_invoice env d invoice_data
             (drop_duplicates ''arrival_detail_id'' details_df) user_name)"

subsection \<open>Example data\<close>

text \<open>
  A concrete environment and database on which the definitions can be run: a parser
  for plain decimal tokens in the place of \<open>float()\<close>, a database that accepts every
  statement, one user, two purchase-order lines (10 percent VAT and NULL VAT), and
  three rows of the tracking view.
\<close>

definition parse_decimal :: "string \<Rightarrow> rat option" where
  "parse_decimal t =
     (let ip = takeWhile (\<lambda>c. c \<noteq> CHR ''.'') t;
          fp = drop 1 (dropWhile (\<lambda>c. c \<noteq> CHR ''.'') t)
      in case (int_digits False 0 ip, if fp = [] then Some 0 else int_digits False 0 fp) of
           (Some a, Some b) \<Rightarrow> Some (of_nat a + of_nat b / 10 ^ length fp)
         | _ \<Rightarrow> None)"

definition env_ok :: env where
  "env_ok = \<lparr>pyfloat = parse_decimal, num_str = (\<lambda>r. ''?''), fault = (\<lambda>s. False),
             now = PyStr ''2026-11-04 09:05:07''\<rparr>"

text \<open>The same environment with a database that rejects every statement.\<close>

definition env_down :: env where
  "env_down = \<lparr>pyfloat = parse_decimal, num_str = (\<lambda>r. ''?''), fault = (\<lambda>s. True),
               now = PyStr ''2026-11-04 09:05:07''\<rparr>"

text \<open>The same environment with a database that rejects the insert of the second line.\<close>

definition env_line2 :: env where
  "env_line2 = \<lparr>pyfloat = parse_decimal, num_str = (\<lambda>r. ''?''),
                fault = (\<lambda>s. case s of InsertDetail k p \<Rightarrow> k = 1 | _ \<Rightarrow> False),
                now = PyStr ''2026-11-04 09:05:07''\<rparr>"

definition can_a :: can_row where
  "can_a = \<lparr>can_line_id = 101, vendor_code = ''V1'', vendor_type = ''External'',
            legal_entity_code = ''E1'', product_purchase_order_id = 7,
            uninvoiced_quantity = 10, po_line_pending_invoiced_qty = 4\<rparr>"

definition can_b :: can_row where
  "can_b = \<lparr>can_line_id = 102, vendor_code = ''V2'', vendor_type = ''External'',
            legal_entity_code = ''E2'', product_purchase_order_id = 8,
            uninvoiced_quantity = 5, po_line_pending_invoiced_qty = - 2\<rparr>"

definition can_c :: can_row where
  "can_c = \<lparr>can_line_id = 103, vendor_code = ''V1'', vendor_type = ''External'',
            legal_entity_code = ''E1'', product_purchase_order_id = 7,
            uninvoiced_quantity = 0, po_line_pending_invoiced_qty = 3\<rparr>"

definition db_example :: db where
  "db_example =
     \<lparr>users = [\<lparr>username = ''alice'', user_delete_flag = 0, keycloak_id = PyStr ''kc-1''\<rparr>],
      product_purchase_orders =
        [\<lparr>ppo_id = 7, vat_gst = Some 10, ppo_delete_flag = 0\<rparr>,
         \<lparr>ppo_id = 8, vat_gst = None, ppo_delete_flag = 0\<rparr>],
      can_tracking_full_view = [can_a, can_b, can_c],
      purchase_invoices = [],
      purchase_invoice_details = [],
      invoice_auto_increment = 1\<rparr>"

definition invoice_data_example :: pydict where
  "invoice_data_example =
     [(''invoice_number'', PyStr ''V-INV20261104-121-P''),
      (''invoiced_date'', PyStr ''2026-11-04''),
      (''due_date'', PyStr ''2026-12-04''),
      (''total_invoiced_amount'', PyNum 1650),
      (''seller_id'', PyNum 1),
      (''buyer_id'', PyNum 2),
      (''currency_id'', PyNum 1),
      (''payment_term_id'', PyNum 3),
      (''invoice_currency_code'', PyStr ''USD'')]"

definition detail_row :: "string \<Rightarrow> rat \<Rightarrow> rat \<Rightarrow> rat \<Rightarrow> pydict" where
  "detail_row cost qty ppo ad =
     [(''buying_unit_cost'', PyStr cost),
      (''uninvoiced_quantity'', PyNum qty),
      (''purchase_order_id'', PyNum 5),
      (''product_purchase_order_id'', PyNum ppo),
      (''arrival_detail_id'', PyNum ad)]"

definition clock_example :: "nat \<Rightarrow> datetime" where
  "clock_example k = \<lparr>year = 2026, month = 11, day = 4, hour = 9, minute = 5, second = 7\<rparr>"

text \<open>The example database after two earlier invoices, with ids 41 and 7.\<close>

definition db_two_invoices :: db where
  "db_two_invoices = db_example\<lparr>purchase_invoices := [(41, []), (7, [])],
                                invoice_auto_increment := 42\<rparr>"

text \<open>
  Detail frames: the two lines of the specification's end-to-end scenario (10 and 5
  units at 100.00, 10 percent VAT); two lines whose amounts have a third decimal; one
  line whose purchase-order line has a NULL VAT rate; one line whose row lacks the
  \<open>product_purchase_order_id\<close> column.
\<close>

definition rows_example :: "pydict list" where
  "rows_example = [detail_row ''100.00 USD'' 10 7 101, detail_row ''100.00 USD'' 5 7 102]"

definition rows_third_decimal :: "pydict list" where
  "rows_third_decimal = [detail_row ''10.004 USD'' 1 7 101, detail_row ''10.004 USD'' 1 7 102]"

definition rows_null_vat :: "pydict list" where
  "rows_null_vat = [detail_row ''100.00 USD'' 10 8 101]"

definition rows_no_ppo_column :: "pydict list" where
  "rows_no_ppo_column =
     [[(''buying_unit_cost'', PyStr ''100.00 USD''),
       (''uninvoiced_quantity'', PyNum 10),
       (''purchase_order_id'', PyNum 5),
       (''arrival_detail_id'', PyNum 101)]]"

section \<open>Verified properties\<close>

subsection \<open>Arrival lines: the true remaining quantity\<close>

lemma select_an_line_fields:
  "uninvoiced_quantity (select_an_line r) = uninvoiced_quantity r"
  "po_line_pending_invoiced_qty (select_an_line r) = po_line_pending_invoiced_qty r"
  "true_remaining_qty (select_an_line r) =
     max 0 (min (uninvoiced_quantity r) (po_line_pending_invoiced_qty r))"
  "vendor_code (select_an_line r) = vendor_code r"
  "vendor_type (select_an_line r) = vendor_type r"
  "legal_entity_code (select_an_line r) = legal_entity_code r"
  by (simp_all add: select_an_line_def can_row.extend_def an_line.fields_def)

lemma get_uninvoiced_ans_rows:
  assumes "l \<in> set (get_uninvoiced_ans env d conds)"
  obtains r where "r \<in> set (can_tracking_full_view d)" "0 < uninvoiced_quantity r"
    "conds r" "l = select_an_line r"
  using assms by (auto simp: get_uninvoiced_ans_def split: if_splits)

lemma uninvoiced_example:
  "get_uninvoiced_ans env_ok db_example (\<lambda>r. True) = [select_an_line can_a, select_an_line can_b]"
  by (simp add: get_uninvoiced_ans_def env_ok_def db_example_def can_a_def can_b_def can_c_def)

text \<open>
  Claim C8. Every row that \<open>get_uninvoiced_ans\<close> produces has
  \<open>true_remaining_qty = max(0, min(uninvoiced_quantity, po_line_pending_invoiced_qty))\<close>,
  and therefore \<open>0 \<le> true_remaining_qty \<le> uninvoiced_quantity\<close>, whatever the pending
  quantity is. The upper bound rests on the query's own restriction to rows with a
  positive uninvoiced quantity.
\<close>

theorem true_remaining_qty_bounds:
  "\<forall>l \<in> set (get_uninvoiced_ans env d conds).
     true_remaining_qty l = max 0 (min (uninvoiced_quantity l) (po_line_pending_invoiced_qty l))
     \<and> 0 \<le> true_remaining_qty l
     \<and> true_remaining_qty l \<le> uninvoiced_quantity l"
proof
  fix l assume "l \<in> set (get_uninvoiced_ans env d conds)"
  then obtain r where r: "0 < uninvoiced_quantity r" "l = select_an_line r"
    by (rule get_uninvoiced_ans_rows)
  show "true_remaining_qty l = max 0 (min (uninvoiced_quantity l) (po_line_pending_invoiced_qty l))
     \<and> 0 \<le> true_remaining_qty l \<and> true_remaining_qty l \<le> uninvoiced_quantity l"
    using r by (simp add: select_an_line_fields)
qed

text \<open>On the example database the line of arrival 101 (10 uninvoiced, 4 pending) is
  produced, with remaining quantity 4.\<close>

theorem true_remaining_qty_bounds_witness:
  "select_an_line can_a \<in> set (get_uninvoiced_ans env_ok db_example (\<lambda>r. True))
   \<and> true_remaining_qty (select_an_line can_a) = 4
   \<and> 0 \<le> true_remaining_qty (select_an_line can_a)
   \<and> true_remaining_qty (select_an_line can_a) \<le> uninvoiced_quantity (select_an_line can_a)"
proof -
  have mem: "select_an_line can_a \<in> set (get_uninvoiced_ans env_ok db_example (\<lambda>r. True))"
    by (simp add: uninvoiced_example)
  have "true_remaining_qty (select_an_line can_a) =
          max 0 (min (uninvoiced_quantity (select_an_line can_a))
                     (po_line_pending_invoiced_qty (select_an_line can_a)))
        \<and> 0 \<le> true_remaining_qty (select_an_line can_a)
        \<and> true_remaining_qty (select_an_line can_a) \<le> uninvoiced_quantity (select_an_line can_a)"
    using true_remaining_qty_bounds [of env_ok db_example "\<lambda>r. True"] mem by (rule bspec)
  then show ?thesis
    using mem by (simp add: select_an_line_fields can_a_def)
qed

subsection \<open>The order of the validation rules\<close>

lemma set_unique: "set (unique xs) = set xs"
  by (induction xs rule: unique.induct) auto

lemma distinct_unique: "distinct (unique xs)"
  by (induction xs rule: unique.induct) (auto simp: set_unique)

lemma length_unique: "length (unique xs) = card (set xs)"
  by (metis distinct_card distinct_unique set_unique)

lemma validate_invoice_selection_cases:
  "validate_invoice_selection df =
     (if df = [] then (False, ''No items selected'')
      else if 1 < card (vendor_code ` set df) then
        (False, ''Multiple vendors selected: '' @ join '', '' (unique (map vendor_code df))
                  @ ''. Please select ANs from a single vendor.'')
      else if 1 < card (vendor_type ` set df) then
        (False, ''Cannot mix Internal and External vendors in the same invoice'')
      else if 1 < card (legal_entity_code ` set df) then
        (False, ''Multiple legal entities selected: ''
                  @ join '', '' (unique (map legal_entity_code df))
                  @ ''. Please select ANs from a single entity.'')
      else (True, []))"
  by (simp add: validate_invoice_selection_def Let_def length_unique)

lemma two_distinct_values:
  assumes "r1 \<in> set df" "r2 \<in> set df" "f r1 \<noteq> f r2"
  shows "1 < card (f ` set df)"
proof -
  have "{f r1, f r2} \<subseteq> f ` set df"
    using assms by auto
  then have "card {f r1, f r2} \<le> card (f ` set df)"
    by (intro card_mono) auto
  then show ?thesis using assms(3) by simp
qed

text \<open>
  Claim C6. \<open>validate_invoice_selection\<close> tests its rules in the order: empty
  selection, more than one distinct vendor code, more than one distinct vendor type,
  more than one distinct legal-entity code; it returns \<open>(False, message)\<close> of the first
  rule that fails and \<open>(True, "")\<close> when none does. In particular a selection holding
  two lines that differ both in vendor code and in legal-entity code gets the vendor
  message.
\<close>

theorem validate_invoice_selection_order:
  "validate_invoice_selection df =
     (if df = [] then (False, ''No items selected'')
      else if 1 < card (vendor_code ` set df) then
        (False, ''Multiple vendors selected: '' @ join '', '' (unique (map vendor_code df))
                  @ ''. Please select ANs from a single vendor.'')
      else if 1 < card (vendor_type ` set df) then
        (False, ''Cannot mix Internal and External vendors in the same invoice'')
      else if 1 < card (legal_entity_code ` set df) then
        (False, ''Multiple legal entities selected: ''
                  @ join '', '' (unique (map legal_entity_code df))
                  @ ''. Please select ANs from a single entity.'')
      else (True, []))
   \<and> (\<forall>r1 \<in> set df. \<forall>r2 \<in> set df.
         vendor_code r1 \<noteq> vendor_code r2 \<and> legal_entity_code r1 \<noteq> legal_entity_code r2 \<longrightarrow>
         validate_invoice_selection df =
           (False, ''Multiple vendors selected: '' @ join '', '' (unique (map vendor_code df))
                     @ ''. Please select ANs from a single vendor.''))"
proof (intro conjI ballI impI)
  show "validate_invoice_selection df =
     (if df = [] then (False, ''No items selected'')
      else if 1 < card (vendor_code ` set df) then
        (False, ''Multiple vendors selected: '' @ join '', '' (unique (map vendor_code df))
                  @ ''. Please select ANs from a single vendor.'')
      else if 1 < card (vendor_type ` set df) then
        (False, ''Cannot mix Internal and External vendors in the same invoice'')
      else if 1 < card (legal_entity_code ` set df) then
        (False, ''Multiple legal entities selected: ''
                  @ join '', '' (unique (map legal_entity_code df))
                  @ ''. Please select ANs from a single entity.'')
      else (True, []))"
    by (rule validate_invoice_selection_cases)
next
  fix r1 r2
  assume "r1 \<in> set df" "r2 \<in> set df"
    "vendor_code r1 \<noteq> vendor_code r2 \<and> legal_entity_code r1 \<noteq> legal_entity_code r2"
  then have "1 < card (vendor_code ` set df)" "df \<noteq> []"
    using two_distinct_values [of r1 df r2 vendor_code] by auto
  then show "validate_invoice_selection df =
         (False, ''Multiple vendors selected: '' @ join '', '' (unique (map vendor_code df))
                   @ ''. Please select ANs from a single vendor.'')"
    by (simp add: validate_invoice_selection_cases)
qed

text \<open>Two example lines of vendors V1 and V2 and entities E1 and E2: the vendor message.\<close>

theorem validate_invoice_selection_order_witness:
  "validate_invoice_selection [select_an_line can_a, select_an_line can_b] =
     (False, ''Multiple vendors selected: V1, V2. Please select ANs from a single vendor.'')"
proof -
  let ?df = "[select_an_line can_a, select_an_line can_b]"
  have "\<forall>r1 \<in> set ?df. \<forall>r2 \<in> set ?df.
         vendor_code r1 \<noteq> vendor_code r2 \<and> legal_entity_code r1 \<noteq> legal_entity_code r2 \<longrightarrow>
         validate_invoice_selection ?df =
           (False, ''Multiple vendors selected: '' @ join '', '' (unique (map vendor_code ?df))
                     @ ''. Please select ANs from a single vendor.'')"
    using validate_invoice_selection_order [of ?df] by (rule conjunct2)
  then have "validate_invoice_selection ?df =
           (False, ''Multiple vendors selected: '' @ join '', '' (unique (map vendor_code ?df))
                     @ ''. Please select ANs from a single vendor.'')"
    by (simp add: select_an_line_fields can_a_def can_b_def)
  then show ?thesis
    by (simp add: select_an_line_fields can_a_def can_b_def)
qed

subsection \<open>Payment-term days\<close>




















subsection \<open>The invoice number\<close>

lemma max_invoice_id_Max:
  "max_invoice_id d =
     (if purchase_invoices d = [] then None else Some (Max (fst ` set (purchase_invoices d))))"
proof (cases "purchase_invoices d")
  case Nil
  then show ?thesis by (simp add: max_invoice_id_def)
next
  case (Cons p ps)
  have "fold max (map fst ps) (fst p) = Max (set (fst p # map fst ps))"
    by (simp only: Max.set_eq_fold)
  then show ?thesis using Cons by (simp add: max_invoice_id_def)
qed

lemma pad_example:
  "pad 4 2026 = ''2026''" "pad 2 11 = ''11''" "pad 2 4 = ''04''"
  "pad 2 9 = ''09''" "pad 2 5 = ''05''" "pad 2 7 = ''07''"
  by (simp_all add: pad_def show_nat.simps digit_char_def char_of_eq_iff)

text \<open>
  Claim C7, as stated, gives the number's form for every call. When the connection or
  the MAX(id) query fails the except branch answers instead, and the place of the
  sequence holds the time of day: with the database down at 09:05:07 the number is
  \<open>V-INV20261104-12090507-P\<close>, where the stated form is \<open>V-INV20261104-121-P\<close>.
\<close>

theorem invoice_number_counterexample:
  "generate_invoice_number env_down clock_example db_example (Some 1) (Some 2) False =
     ''V-INV20261104-12090507-P''
   \<and> invoice_number_spec (clock_example 0) db_example 1 2 False = ''V-INV20261104-121-P''"
  by (simp add: generate_invoice_number_def invoice_number_spec_def env_down_def
        clock_example_def db_example_def strftime_Ymd_def strftime_HMS_def pad_example
        show_int_def show_nat.simps digit_char_def char_of_eq_iff)

text \<open>
  Claim C7, amended. When the connection and the MAX(id) query succeed,
  \<open>generate_invoice_number\<close> returns \<open>V-INV<YYYYMMDD>-<vendorId><buyerId><sequence>-<suffix>\<close>
  with suffix \<open>A\<close> for an advance payment and \<open>P\<close> otherwise, the sequence being one
  more than the largest existing purchase-invoice id (0 when there is none), and a
  missing vendor or buyer id printed as 0. When either fails, the sequence is replaced
  by the time of day \<open>HHMMSS\<close>.
\<close>

theorem generate_invoice_number_format:
  "(\<not> fault env Connect \<and> \<not> fault env SelectMaxId \<longrightarrow>
      generate_invoice_number env clock d vendor_id buyer_id adv =
        invoice_number_spec (clock 0) d (case vendor_id of None \<Rightarrow> 0 | Some v \<Rightarrow> v)
          (case buyer_id of None \<Rightarrow> 0 | Some b \<Rightarrow> b) adv)
   \<and> (fault env Connect \<or> fault env SelectMaxId \<longrightarrow>
      generate_invoice_number env clock d vendor_id buyer_id adv =
        ''V-INV'' @ strftime_Ymd (clock 2) @ ''-''
          @ show_int (case vendor_id of None \<Rightarrow> 0 | Some v \<Rightarrow> v)
          @ show_int (case buyer_id of None \<Rightarrow> 0 | Some b \<Rightarrow> b)
          @ strftime_HMS (clock 1) @ ''-'' @ (if adv then ''A'' else ''P''))"
  by (auto simp: generate_invoice_number_def invoice_number_spec_def Let_def
        max_invoice_id_Max add.commute)

text \<open>After invoices 41 and 7, vendor 1 with no buyer id, advance payment: sequence 42.\<close>

theorem generate_invoice_number_format_witness:
  "generate_invoice_number env_ok clock_example db_two_invoices (Some 1) None True =
     ''V-INV20261104-1042-A''"
proof -
  have ok: "\<not> fault env_ok Connect \<and> \<not> fault env_ok SelectMaxId"
    by (simp add: env_ok_def)
  have "generate_invoice_number env_ok clock_example db_two_invoices (Some 1) None True =
        invoice_number_spec (clock_example 0) db_two_invoices 1 0 True"
    using generate_invoice_number_format [of env_ok clock_example db_two_invoices "Some 1" None True]
      ok by simp
  also have "\<dots> = ''V-INV20261104-1042-A''"
    by (simp add: invoice_number_spec_def db_two_invoices_def db_example_def clock_example_def
          strftime_Ymd_def pad_example show_int_def show_nat.simps digit_char_def char_of_eq_iff)
  finally show ?thesis .
qed

subsection \<open>Runs of the persistence transaction\<close>

lemma bind_exn_simps [simp]:
  "bind_exn (Inl e) f = Inl e"
  "bind_exn (Inr x) f = f x"
  by (simp_all add: bind_exn_def)

lemma bind_exn_Inr_iff:
  "bind_exn m f = Inr y \<longleftrightarrow> (\<exists>x. m = Inr x \<and> f x = Inr y)"
  by (cases m) auto

lemma py_mul_Inr_iff: "py_mul a v = Inr b \<longleftrightarrow> (\<exists>q. v = PyNum q \<and> b = a * q)"
  by (cases v) auto

lemma line_base_Inr:
  assumes "line_base env rate row = Inr b"
  obtains c q r where "unit_cost_of env row = Inr c"
    "getitem row ''uninvoiced_quantity'' = Inr (PyNum q)" "rate = PyNum r" "b = c * q * r"
  using assms unfolding line_base_def bind_exn_Inr_iff py_mul_Inr_iff by auto

lemma sum_base_Inr:
  "sum_base env rate rows t = Inr tot \<Longrightarrow>
   \<exists>bs. length bs = length rows
        \<and> (\<forall>j < length rows. line_base env rate (rows ! j) = Inr (bs ! j))
        \<and> tot = t + sum_list bs"
proof (induction rows arbitrary: t)
  case Nil
  then show ?case by simp
next
  case (Cons row rows)
  from Cons.prems obtain b where b: "line_base env rate row = Inr b"
    and rest: "sum_base env rate rows (t + b) = Inr tot"
    by (auto simp: bind_exn_Inr_iff)
  from Cons.IH [OF rest] obtain bs where bs: "length bs = length rows"
    "\<forall>j < length rows. line_base env rate (rows ! j) = Inr (bs ! j)"
    "tot = t + b + sum_list bs" by auto
  have "\<forall>j < length (row # rows). line_base env rate ((row # rows) ! j) = Inr ((b # bs) ! j)"
    using b bs(2) by (auto simp: nth_Cons split: nat.splits)
  then show ?case using bs(1,3)
    by (intro exI [of _ "b # bs"]) (simp add: add.assoc)
qed

lemma detail_params_Inr:
  assumes "detail_params env d rate invoice_id k row = Inr p"
  obtains c vat q r po ppo ad where
    "unit_cost_of env row = Inr c"
    "vat_percent_of env d k row = Inr vat"
    "getitem row ''uninvoiced_quantity'' = Inr (PyNum q)"
    "rate = PyNum r"
    "getitem row ''purchase_order_id'' = Inr po"
    "getitem row ''product_purchase_order_id'' = Inr ppo"
    "getitem row ''arrival_detail_id'' = Inr ad"
    "p = [(''purchase_invoice_id'', PyNum (of_int invoice_id)),
          (''purchase_order_id'', po),
          (''product_purchase_order_id'', ppo),
          (''arrival_detail_id'', ad),
          (''purchased_invoice_quantity'', PyNum q),
          (''invoiced_quantity'', PyNum q),
          (''amount'', PyNum (py_round2 (py_round2 (c * q * r) * (1 + vat / 100)))),
          (''amount_exclude_vat'', PyNum (py_round2 (c * q * r))),
          (''vat_gst'', PyNum vat),
          (''exchange_rate'', PyNum r)]"
  using assms unfolding detail_params_def bind_exn_Inr_iff py_mul_Inr_iff Let_def by auto

lemma insert_lines_Inr:
  "insert_lines env d rate invoice_id k rows tbl = Inr tbl' \<Longrightarrow>
   \<exists>ps. length ps = length rows
        \<and> tbl' = tbl @ map stored_detail ps
        \<and> (\<forall>j < length rows.
              detail_params env d rate invoice_id (k + j) (rows ! j) = Inr (ps ! j)
              \<and> \<not> fault env (InsertDetail (k + j) (ps ! j)))"
proof (induction rows arbitrary: k tbl)
  case Nil
  then show ?case by simp
next
  case (Cons row rows)
  from Cons.prems obtain p where p: "detail_params env d rate invoice_id k row = Inr p"
    and nf: "\<not> fault env (InsertDetail k p)"
    and rest: "insert_lines env d rate invoice_id (Suc k) rows (tbl @ [stored_detail p]) = Inr tbl'"
    by (auto simp: bind_exn_Inr_iff split: if_splits)
  from Cons.IH [OF rest] obtain ps where ps: "length ps = length rows"
    "tbl' = (tbl @ [stored_detail p]) @ map stored_detail ps"
    "\<forall>j < length rows.
        detail_params env d rate invoice_id (Suc k + j) (rows ! j) = Inr (ps ! j)
        \<and> \<not> fault env (InsertDetail (Suc k + j) (ps ! j))" by auto
  have "\<forall>j < length (row # rows).
          detail_params env d rate invoice_id (k + j) ((row # rows) ! j) = Inr ((p # ps) ! j)
          \<and> \<not> fault env (InsertDetail (k + j) ((p # ps) ! j))"
    using p nf ps(3) by (auto simp: nth_Cons split: nat.splits)
  then show ?case using ps(1,2)
    by (intro exI [of _ "p # ps"]) simp
qed

lemma transaction_body_True:
  assumes "transaction_body env d idata rows user = Inr ((True, msg, oid), d')"
  shows "\<exists>kc tot hp ps num.
      \<not> fault env (SelectKeycloak user)
    \<and> resolve_creator d user = Some kc
    \<and> sum_base env (dict_get_default idata ''po_to_invoice_rate'' (PyNum 1)) rows 0 = Inr tot
    \<and> header_params idata tot kc = Inr hp
    \<and> \<not> fault env (InsertHeader hp)
    \<and> length ps = length rows
    \<and> (\<forall>j < length rows.
          detail_params env d (dict_get_default idata ''po_to_invoice_rate'' (PyNum 1))
            (invoice_auto_increment d) j (rows ! j) = Inr (ps ! j)
          \<and> \<not> fault env (InsertDetail j (ps ! j)))
    \<and> log_success idata = Inr ()
    \<and> getitem idata ''invoice_number'' = Inr num
    \<and> msg = ''Invoice '' @ py_str env num @ '' created successfully''
    \<and> oid = Some (invoice_auto_increment d)
    \<and> d' = d\<lparr>purchase_invoices :=
                 purchase_invoices d @ [(invoice_auto_increment d, stored_header env hp)],
               purchase_invoice_details := purchase_invoice_details d @ map stored_detail ps,
               invoice_auto_increment := invoice_auto_increment d + 1\<rparr>"
proof -
  let ?rate = "dict_get_default idata ''po_to_invoice_rate'' (PyNum 1)"
  from assms have nk: "\<not> fault env (SelectKeycloak user)"
    by (auto simp: transaction_body_def split: if_splits)
  from assms nk obtain kc where kc: "resolve_creator d user = Some kc"
    by (auto simp: transaction_body_def split: option.splits)
  from assms nk kc obtain tot hp tbl num
    where tot: "sum_base env ?rate rows 0 = Inr tot"
      and hp: "header_params idata tot kc = Inr hp"
      and nh: "\<not> fault env (InsertHeader hp)"
      and tbl: "insert_lines env d ?rate (invoice_auto_increment d) 0 rows
                  (purchase_invoice_details d) = Inr tbl"
      and lg: "log_success idata = Inr ()"
      and num: "getitem idata ''invoice_number'' = Inr num"
      and res: "msg = ''Invoice '' @ py_str env num @ '' created successfully''"
        "oid = Some (invoice_auto_increment d)"
        "d' = d\<lparr>purchase_invoices :=
                 purchase_invoices d @ [(invoice_auto_increment d, stored_header env hp)],
               purchase_invoice_details := tbl,
               invoice_auto_increment := invoice_auto_increment d + 1\<rparr>"
    by (auto simp: transaction_body_def Let_def bind_exn_Inr_iff split: if_splits)
  from insert_lines_Inr [OF tbl] obtain ps where ps: "length ps = length rows"
    "tbl = purchase_invoice_details d @ map stored_detail ps"
    "\<forall>j < length rows.
        detail_params env d ?rate (invoice_auto_increment d) j (rows ! j) = Inr (ps ! j)
        \<and> \<not> fault env (InsertDetail j (ps ! j))" by auto
  show ?thesis
    using nk kc tot hp nh ps lg num res by blast
qed

lemma transaction_body_False:
  assumes "transaction_body env d idata rows user = Inr ((False, msg, oid), d')"
  shows "msg = ''Invalid user: '' @ user \<and> oid = None \<and> d' = d
         \<and> resolve_creator d user = None"
  using assms
  by (auto simp: transaction_body_def Let_def bind_exn_Inr_iff split: if_splits option.splits)

lemma create_purchase_invoice_True:
  assumes "create_purchase_invoice env d idata rows user = ((True, msg, oid), d')"
  shows "\<not> fault env Connect \<and> \<not> fault env Commit
         \<and> transaction_body env d idata rows user = Inr ((True, msg, oid), d')"
  using assms
  by (auto simp: create_purchase_invoice_def split: if_splits sum.splits)

lemma create_purchase_invoice_False:
  assumes "create_purchase_invoice env d idata rows user = ((False, msg, oid), d')"
  shows "oid = None \<and> d' = d
         \<and> (msg = ''Invalid user: '' @ user \<or> (\<exists>e. msg = ''Error creating invoice: '' @ exn_str e))"
proof (cases "fault env Connect")
  case True
  then have "msg = ''Error creating invoice: '' @ exn_str DatabaseError" "oid = None" "d' = d"
    using assms by (auto simp: create_purchase_invoice_def simp del: exn_str.simps)
  then show ?thesis by blast
next
  case nc: False
  show ?thesis
  proof (cases "transaction_body env d idata rows user")
    case (Inl e)
    then have "msg = ''Error creating invoice: '' @ exn_str e" "oid = None" "d' = d"
      using assms nc by (auto simp: create_purchase_invoice_def simp del: exn_str.simps)
    then show ?thesis by blast
  next
    case (Inr r)
    obtain b m i d2 where r: "r = ((b, m, i), d2)" by (cases r) auto
    show ?thesis
    proof (cases "fault env Commit")
      case True
      then have "msg = ''Error creating invoice: '' @ exn_str DatabaseError" "oid = None" "d' = d"
        using assms nc Inr r by (auto simp: create_purchase_invoice_def simp del: exn_str.simps)
      then show ?thesis by blast
    next
      case False
      then have "b = False" "m = msg" "i = oid" "d2 = d'"
        using assms nc Inr r by (auto simp: create_purchase_invoice_def)
      then show ?thesis using transaction_body_False [of env d idata rows user msg oid d'] Inr r
        by simp
    qed
  qed
qed

subsection \<open>Rounding to two decimals\<close>

lemma py_round2_near:
  assumes "\<bar>x * 100 - of_int k\<bar> < 1 / 2"
  shows "py_round2 x = of_int k / 100"
proof (cases "of_int k \<le> x * 100")
  case True
  then have f: "\<lfloor>x * 100\<rfloor> = k" using assms by (intro floor_unique) auto
  show ?thesis using assms True by (simp add: py_round2_def Let_def f)
next
  case False
  then have f: "\<lfloor>x * 100\<rfloor> = k - 1" using assms by (intro floor_unique) auto
  show ?thesis using assms False by (simp add: py_round2_def Let_def f)
qed

lemma py_round2_of_int: "py_round2 (of_int k / 100) = of_int k / 100"
  by (rule py_round2_near) simp

lemma py_round2_idem: "py_round2 (py_round2 x) = py_round2 x"
proof -
  obtain k where k: "py_round2 x = of_int k / 100"
    unfolding py_round2_def Let_def by blast
  show ?thesis unfolding k by (rule py_round2_of_int)
qed

lemma py_round2_error: "\<bar>py_round2 x - x\<bar> \<le> 1 / 200"
proof -
  define s where "s = x * 100"
  define f where "f = \<lfloor>s\<rfloor>"
  define r :: rat where "r = of_int (if s - of_int f < 1 / 2 then f
                 else if 1 / 2 < s - of_int f then f + 1
                 else if even f then f else f + 1)"
  have b: "of_int f \<le> s" "s < of_int f + 1" unfolding f_def by linarith+
  have x: "x = s / 100" unfolding s_def by simp
  have p: "py_round2 x = r / 100"
    unfolding py_round2_def Let_def s_def [symmetric] f_def [symmetric] r_def ..
  have "\<bar>r - s\<bar> \<le> 1 / 2"
    unfolding r_def using b by auto
  then show ?thesis using p x by linarith
qed

lemma py_round2_example:
  "py_round2 0 = 0" "py_round2 1000 = 1000" "py_round2 500 = 500" "py_round2 1500 = 1500"
  "py_round2 1100 = 1100" "py_round2 550 = 550"
  "py_round2 (2501 / 250) = 10" "py_round2 (2501 / 125) = 2001 / 100"
  using py_round2_near [of 0 0] py_round2_near [of 1000 100000] py_round2_near [of 500 50000]
    py_round2_near [of 1500 150000] py_round2_near [of 1100 110000] py_round2_near [of 550 55000]
    py_round2_near [of "2501 / 250" 1000] py_round2_near [of "2501 / 125" 2001]
  by simp_all

lemma sum_round_error:
  "\<bar>py_round2 (sum_list bs) - sum_list (map py_round2 bs)\<bar> \<le> (of_nat (length bs) + 1) / 200"
proof -
  have lines: "\<bar>sum_list bs - sum_list (map py_round2 bs)\<bar> \<le> of_nat (length bs) / 200"
  proof (induction bs)
    case Nil
    then show ?case by simp
  next
    case (Cons b bs)
    have a: "\<bar>py_round2 b - b\<bar> \<le> 1 / 200" by (rule py_round2_error)
    have e1: "sum_list (b # bs) = b + sum_list bs" by simp
    have e2: "sum_list (map py_round2 (b # bs)) = py_round2 b + sum_list (map py_round2 bs)"
      by simp
    have e3: "(of_nat (length (b # bs)) :: rat) / 200 = 1 / 200 + of_nat (length bs) / 200"
      by (simp add: add_divide_distrib)
    show ?case unfolding e1 e2 e3 using a Cons.IH by linarith
  qed
  have whole: "\<bar>py_round2 (sum_list bs) - sum_list bs\<bar> \<le> 1 / 200" by (rule py_round2_error)
  have e: "((of_nat (length bs) :: rat) + 1) / 200 = of_nat (length bs) / 200 + 1 / 200"
    by (simp add: add_divide_distrib)
  show ?thesis unfolding e using lines whole by linarith
qed

subsection \<open>The example invoice\<close>

text \<open>The end-to-end scenario of the specification, run on the example database.\<close>

lemma parse_decimal_example:
  "parse_decimal ''100.00'' = Some 100"
  "parse_decimal ''10.004'' = Some (2501 / 250)"
  by (simp_all add: parse_decimal_def is_digit_def digit_val_def)

lemma first_token_example:
  "first_token ''100.00 USD'' = Some ''100.00''"
  "first_token ''10.004 USD'' = Some ''10.004''"
  by (simp_all add: first_token_def is_space_def)

lemma env_ok_sel:
  "pyfloat env_ok = parse_decimal" "fault env_ok s = False"
  "now env_ok = PyStr ''2026-11-04 09:05:07''" "num_str env_ok r = ''?''"
  by (simp_all add: env_ok_def)

lemma db_example_sel:
  "users db_example = [\<lparr>username = ''alice'', user_delete_flag = 0, keycloak_id = PyStr ''kc-1''\<rparr>]"
  "product_purchase_orders db_example =
        [\<lparr>ppo_id = 7, vat_gst = Some 10, ppo_delete_flag = 0\<rparr>,
         \<lparr>ppo_id = 8, vat_gst = None, ppo_delete_flag = 0\<rparr>]"
  "purchase_invoices db_example = []"
  "purchase_invoice_details db_example = []"
  "invoice_auto_increment db_example = 1"
  by (simp_all add: db_example_def)

lemma unit_cost_example:
  "unit_cost_of env_ok (detail_row ''100.00 USD'' q p a) = Inr 100"
  "unit_cost_of env_ok (detail_row ''10.004 USD'' q p a) = Inr (2501 / 250)"
  by (simp_all add: unit_cost_of_def detail_row_def getitem_def env_ok_sel
        first_token_example parse_decimal_example)

lemma detail_row_items:
  "getitem (detail_row c q p a) ''uninvoiced_quantity'' = Inr (PyNum q)"
  "getitem (detail_row c q p a) ''purchase_order_id'' = Inr (PyNum 5)"
  "getitem (detail_row c q p a) ''product_purchase_order_id'' = Inr (PyNum p)"
  "getitem (detail_row c q p a) ''arrival_detail_id'' = Inr (PyNum a)"
  "map_of (detail_row c q p a) ''product_purchase_order_id'' = Some (PyNum p)"
  "dict_get (detail_row c q p a) ''product_purchase_order_id'' = PyNum p"
  by (simp_all add: detail_row_def getitem_def dict_get_def)

lemma vat_example:
  "vat_percent_of env_ok db_example k (detail_row c q 7 a) = Inr 10"
  "vat_percent_of env_ok db_example k (detail_row c q 8 a) = Inr 0"
  by (simp_all add: vat_percent_of_def detail_row_items env_ok_sel vat_lookup_def db_example_sel)

lemma invoice_data_example_items:
  "dict_get_default invoice_data_example ''po_to_invoice_rate'' (PyNum 1) = PyNum 1"
  "log_success invoice_data_example = Inr ()"
  "getitem invoice_data_example ''invoice_number'' = Inr (PyStr ''V-INV20261104-121-P'')"
  by (simp_all add: invoice_data_example_def dict_get_default_def log_success_def getitem_def)

lemma header_example:
  "header_params invoice_data_example t kc =
     Inr [(''invoice_number'', PyStr ''V-INV20261104-121-P''),
          (''invoiced_date'', PyStr ''2026-11-04''),
          (''due_date'', PyStr ''2026-12-04''),
          (''total_invoiced_amount'', PyNum 1650),
          (''total_invoiced_amount_exclude_vat'', PyNum (py_round2 t)),
          (''seller_id'', PyNum 1),
          (''buyer_id'', PyNum 2),
          (''currency_id'', PyNum 1),
          (''payment_term_id'', PyNum 3),
          (''created_by'', kc)]"
  by (simp add: header_params_def invoice_data_example_def getitem_def dict_get_def add_if_def)

lemma resolve_example: "resolve_creator db_example ''alice'' = Some (PyStr ''kc-1'')"
  by (simp add: resolve_creator_def db_example_sel)

lemma create_example:
  "create_purchase_invoice env_ok db_example invoice_data_example rows_example ''alice'' =
     ((True, ''Invoice V-INV20261104-121-P created successfully'', Some 1),
      db_example\<lparr>purchase_invoices :=
          [(1, [(''invoice_number'', PyStr ''V-INV20261104-121-P''),
                (''invoiced_date'', PyStr ''2026-11-04''),
                (''due_date'', PyStr ''2026-12-04''),
                (''total_invoiced_amount'', PyNum 1650),
                (''total_invoiced_amount_exclude_vat'', PyNum 1500),
                (''seller_id'', PyNum 1),
                (''buyer_id'', PyNum 2),
                (''currency_id'', PyNum 1),
                (''payment_term_id'', PyNum 3),
                (''created_by'', PyStr ''kc-1''),
                (''created_date'', PyStr ''2026-11-04 09:05:07''),
                (''delete_flag'', PyNum 0)])],
        purchase_invoice_details :=
          [[(''purchase_invoice_id'', PyNum 1),
            (''purchase_order_id'', PyNum 5),
            (''product_purchase_order_id'', PyNum 7),
            (''arrival_detail_id'', PyNum 101),
            (''purchased_invoice_quantity'', PyNum 10),
            (''invoiced_quantity'', PyNum 10),
            (''amount'', PyNum 1100),
            (''amount_exclude_vat'', PyNum 1000),
            (''vat_gst'', PyNum 10),
            (''exchange_rate'', PyNum 1),
            (''delete_flag'', PyNum 0)],
           [(''purchase_invoice_id'', PyNum 1),
            (''purchase_order_id'', PyNum 5),
            (''product_purchase_order_id'', PyNum 7),
            (''arrival_detail_id'', PyNum 102),
            (''purchased_invoice_quantity'', PyNum 5),
            (''invoiced_quantity'', PyNum 5),
            (''amount'', PyNum 550),
            (''amount_exclude_vat'', PyNum 500),
            (''vat_gst'', PyNum 10),
            (''exchange_rate'', PyNum 1),
            (''delete_flag'', PyNum 0)]],
        invoice_auto_increment := 2\<rparr>)"
  by (simp add: create_purchase_invoice_def transaction_body_def rows_example_def
        resolve_example line_base_def unit_cost_example detail_row_items vat_example
        invoice_data_example_items header_example detail_params_def
        stored_header_def stored_detail_def env_ok_sel db_example_sel
        py_round2_example Let_def)

subsection \<open>Atomicity of invoice creation\<close>

lemma detail_params_invoice_id:
  assumes "detail_params env d rate invoice_id k row = Inr p"
  shows "map_of p ''purchase_invoice_id'' = Some (PyNum (of_int invoice_id))"
  using assms by (elim detail_params_Inr) simp

lemma vat_percent_of_Inr:
  assumes "vat_percent_of env d k row = Inr vat"
    and "getitem row ''product_purchase_order_id'' = Inr ppo"
  shows "vat = (if truthy ppo
                then (case vat_lookup d ppo of Some (Some v) \<Rightarrow> v | _ \<Rightarrow> 0)
                else 0)"
  using assms
  by (auto simp: vat_percent_of_def getitem_def dict_get_def
           split: if_splits option.splits)

lemma header_params_total:
  assumes "header_params idata tot kc = Inr hp"
  shows "map_of (stored_header env hp) ''total_invoiced_amount_exclude_vat'' =
           Some (PyNum (py_round2 tot))"
  using assms unfolding header_params_def bind_exn_Inr_iff stored_header_def add_if_def
  by (auto split: if_splits)

lemma stored_detail_lookup:
  "k \<noteq> ''delete_flag'' \<Longrightarrow> map_of p k = Some v \<Longrightarrow> map_of (stored_detail p) k = Some v"
  by (simp add: stored_detail_def)

text \<open>
  Claim C1. \<open>create_purchase_invoice\<close> always returns a triple, and every run is of one
  of two kinds. Either it returns \<open>(False, message, None)\<close>, the message naming the
  unknown user or the caught exception, and the database is exactly as before: no
  header row and no detail row of the invoice remains. Or it returns
  \<open>(True, message, id)\<close>, and the database has gained exactly one header row, whose id
  is the one returned, and one detail row per line, each pointing to that id; in that
  case the creator was resolved and no statement (connection, creator query, header
  insert, any line insert, commit) was rejected. So an unresolvable creator, a rejected
  header insert or a rejected line insert always ends in the first kind.
\<close>

theorem create_purchase_invoice_all_or_nothing:
  "(\<exists>msg. create_purchase_invoice env d idata rows user = ((False, msg, None), d)
           \<and> (msg = ''Invalid user: '' @ user
                \<or> (\<exists>e. msg = ''Error creating invoice: '' @ exn_str e)))
   \<or> (\<exists>msg kc hp ps.
         create_purchase_invoice env d idata rows user =
           ((True, msg, Some (invoice_auto_increment d)),
            d\<lparr>purchase_invoices :=
                 purchase_invoices d @ [(invoice_auto_increment d, stored_header env hp)],
               purchase_invoice_details := purchase_invoice_details d @ map stored_detail ps,
               invoice_auto_increment := invoice_auto_increment d + 1\<rparr>)
         \<and> length ps = length rows
         \<and> list_all (\<lambda>p. map_of p ''purchase_invoice_id'' =
                             Some (PyNum (of_int (invoice_auto_increment d)))) ps
         \<and> resolve_creator d user = Some kc
         \<and> \<not> fault env Connect
         \<and> \<not> fault env (SelectKeycloak user)
         \<and> \<not> fault env (InsertHeader hp)
         \<and> (\<forall>j < length rows. \<not> fault env (InsertDetail j (ps ! j)))
         \<and> \<not> fault env Commit)"
proof -
  obtain b msg oid d' where r: "create_purchase_invoice env d idata rows user = ((b, msg, oid), d')"
    by (metis prod.exhaust)
  show ?thesis
  proof (cases b)
    case False
    with r create_purchase_invoice_False [of env d idata rows user msg oid d']
    show ?thesis by auto
  next
    case True
    with r have run: "create_purchase_invoice env d idata rows user = ((True, msg, oid), d')"
      by simp
    from create_purchase_invoice_True [OF run]
    have nc: "\<not> fault env Connect" "\<not> fault env Commit"
      and body: "transaction_body env d idata rows user = Inr ((True, msg, oid), d')" by auto
    from transaction_body_True [OF body] obtain kc tot hp ps num where
      f: "\<not> fault env (SelectKeycloak user)" "resolve_creator d user = Some kc"
         "\<not> fault env (InsertHeader hp)" "length ps = length rows"
      and lines: "\<forall>j < length rows.
          detail_params env d (dict_get_default idata ''po_to_invoice_rate'' (PyNum 1))
            (invoice_auto_increment d) j (rows ! j) = Inr (ps ! j)
          \<and> \<not> fault env (InsertDetail j (ps ! j))"
      and res: "oid = Some (invoice_auto_increment d)"
         "d' = d\<lparr>purchase_invoices :=
                 purchase_invoices d @ [(invoice_auto_increment d, stored_header env hp)],
               purchase_invoice_details := purchase_invoice_details d @ map stored_detail ps,
               invoice_auto_increment := invoice_auto_increment d + 1\<rparr>"
      by blast
    have ids: "list_all (\<lambda>p. map_of p ''purchase_invoice_id'' =
                             Some (PyNum (of_int (invoice_auto_increment d)))) ps"
      unfolding list_all_length using lines f(4) by (auto intro: detail_params_invoice_id)
    have nofault: "\<forall>j < length rows. \<not> fault env (InsertDetail j (ps ! j))"
      using lines by blast
    show ?thesis
      using run res f nc ids nofault by blast
  qed
qed

text \<open>
  The atomicity scenario of the specification: the insert of the second of two lines is
  rejected; the run reports a failure and the database is unchanged.
\<close>

theorem create_purchase_invoice_all_or_nothing_witness:
  "\<exists>msg. create_purchase_invoice env_line2 db_example invoice_data_example rows_example ''alice'' =
            ((False, msg, None), db_example)
         \<and> (msg = ''Invalid user: '' @ ''alice''
              \<or> (\<exists>e. msg = ''Error creating invoice: '' @ exn_str e))"
proof -
  have f: "fault env_line2 (InsertDetail 1 p)" for p
    by (simp add: env_line2_def)
  have len: "1 < length rows_example"
    by (simp add: rows_example_def)
  show ?thesis
    using create_purchase_invoice_all_or_nothing
            [of env_line2 db_example invoice_data_example rows_example "''alice''"] f len
    by blast
qed

subsection \<open>Amounts of the persisted lines\<close>

lemma create_purchase_invoice_succeeded:
  assumes "fst (fst (create_purchase_invoice env d idata rows user))"
  shows "\<exists>kc tot hp ps.
      resolve_creator d user = Some kc
    \<and> sum_base env (dict_get_default idata ''po_to_invoice_rate'' (PyNum 1)) rows 0 = Inr tot
    \<and> header_params idata tot kc = Inr hp
    \<and> length ps = length rows
    \<and> (\<forall>j < length rows.
          detail_params env d (dict_get_default idata ''po_to_invoice_rate'' (PyNum 1))
            (invoice_auto_increment d) j (rows ! j) = Inr (ps ! j))
    \<and> snd (create_purchase_invoice env d idata rows user) =
         d\<lparr>purchase_invoices :=
              purchase_invoices d @ [(invoice_auto_increment d, stored_header env hp)],
            purchase_invoice_details := purchase_invoice_details d @ map stored_detail ps,
            invoice_auto_increment := invoice_auto_increment d + 1\<rparr>"
proof -
  obtain b msg oid d' where r: "create_purchase_invoice env d idata rows user = ((b, msg, oid), d')"
    by (metis prod.exhaust)
  with assms have run: "create_purchase_invoice env d idata rows user = ((True, msg, oid), d')"
    by simp
  from create_purchase_invoice_True [OF run]
  have body: "transaction_body env d idata rows user = Inr ((True, msg, oid), d')" by auto
  from transaction_body_True [OF body] run show ?thesis
    by (elim exE conjE) (intro exI conjI, simp_all)
qed

lemma detail_params_amounts:
  assumes "detail_params env d rate invoice_id k row = Inr p"
  obtains c q r vat ppo where
    "unit_cost_of env row = Inr c"
    "getitem row ''uninvoiced_quantity'' = Inr (PyNum q)"
    "rate = PyNum r"
    "getitem row ''product_purchase_order_id'' = Inr ppo"
    "vat = (if truthy ppo
            then (case vat_lookup d ppo of Some (Some v) \<Rightarrow> v | _ \<Rightarrow> 0)
            else 0)"
    "map_of (stored_detail p) ''amount_exclude_vat'' = Some (PyNum (py_round2 (c * q * r)))"
    "map_of (stored_detail p) ''amount'' =
       Some (PyNum (py_round2 (py_round2 (c * q * r) * (1 + vat / 100))))"
    "map_of (stored_detail p) ''vat_gst'' = Some (PyNum vat)"
    "map_of (stored_detail p) ''exchange_rate'' = Some (PyNum r)"
proof -
  from assms obtain c vat q r po ppo ad where
    f: "unit_cost_of env row = Inr c"
    "vat_percent_of env d k row = Inr vat"
    "getitem row ''uninvoiced_quantity'' = Inr (PyNum q)"
    "rate = PyNum r"
    "getitem row ''product_purchase_order_id'' = Inr ppo"
    and p: "p = [(''purchase_invoice_id'', PyNum (of_int invoice_id)),
          (''purchase_order_id'', po),
          (''product_purchase_order_id'', ppo),
          (''arrival_detail_id'', ad),
          (''purchased_invoice_quantity'', PyNum q),
          (''invoiced_quantity'', PyNum q),
          (''amount'', PyNum (py_round2 (py_round2 (c * q * r) * (1 + vat / 100)))),
          (''amount_exclude_vat'', PyNum (py_round2 (c * q * r))),
          (''vat_gst'', PyNum vat),
          (''exchange_rate'', PyNum r)]"
    by (rule detail_params_Inr)
  have v: "vat = (if truthy ppo
            then (case vat_lookup d ppo of Some (Some v) \<Rightarrow> v | _ \<Rightarrow> 0)
            else 0)"
    using f(2,5) by (rule vat_percent_of_Inr)
  show ?thesis
    by (rule that [OF f(1) f(3) f(4) f(5) v]) (simp_all add: p stored_detail_def)
qed

lemma create_example_ok:
  "fst (fst (create_purchase_invoice env_ok db_example invoice_data_example rows_example ''alice''))"
  by (simp add: create_example)

text \<open>
  Claim C3. Whenever \<open>create_purchase_invoice\<close> succeeds, it has appended one detail
  row per line, in order, and the row of line \<open>j\<close> has
  \<open>amount_exclude_vat = round(unit_cost \<times> quantity \<times> po_to_invoice_rate, 2)\<close> and
  \<open>amount = round(amount_exclude_vat \<times> (1 + vat_percent / 100), 2)\<close>, where
  \<open>vat_percent\<close>, also stored as \<open>vat_gst\<close>, is the rate the
  \<open>product_purchase_orders\<close> row holds when the line is written (0 when the lookup
  gives nothing), not a value taken from the selected row.
\<close>

theorem detail_line_amounts:
  assumes "fst (fst (create_purchase_invoice env d idata rows user))"
  shows "\<exists>ps. purchase_invoice_details (snd (create_purchase_invoice env d idata rows user)) =
               purchase_invoice_details d @ ps
            \<and> length ps = length rows
            \<and> (\<forall>j < length rows. \<exists>c q r vat ppo.
                  unit_cost_of env (rows ! j) = Inr c
                  \<and> getitem (rows ! j) ''uninvoiced_quantity'' = Inr (PyNum q)
                  \<and> dict_get_default idata ''po_to_invoice_rate'' (PyNum 1) = PyNum r
                  \<and> getitem (rows ! j) ''product_purchase_order_id'' = Inr ppo
                  \<and> vat = (if truthy ppo
                           then (case vat_lookup d ppo of Some (Some v) \<Rightarrow> v | _ \<Rightarrow> 0)
                           else 0)
                  \<and> map_of (ps ! j) ''amount_exclude_vat'' = Some (PyNum (py_round2 (c * q * r)))
                  \<and> map_of (ps ! j) ''amount'' =
                      Some (PyNum (py_round2 (py_round2 (c * q * r) * (1 + vat / 100))))
                  \<and> map_of (ps ! j) ''vat_gst'' = Some (PyNum vat))"
proof -
  from create_purchase_invoice_succeeded [OF assms] obtain hp ps where
    len: "length ps = length rows"
    and lines: "\<forall>j < length rows.
        detail_params env d (dict_get_default idata ''po_to_invoice_rate'' (PyNum 1))
          (invoice_auto_increment d) j (rows ! j) = Inr (ps ! j)"
    and d': "snd (create_purchase_invoice env d idata rows user) =
       d\<lparr>purchase_invoices :=
            purchase_invoices d @ [(invoice_auto_increment d, stored_header env hp)],
          purchase_invoice_details := purchase_invoice_details d @ map stored_detail ps,
          invoice_auto_increment := invoice_auto_increment d + 1\<rparr>"
    by blast
  have "\<exists>c q r vat ppo.
          unit_cost_of env (rows ! j) = Inr c
          \<and> getitem (rows ! j) ''uninvoiced_quantity'' = Inr (PyNum q)
          \<and> dict_get_default idata ''po_to_invoice_rate'' (PyNum 1) = PyNum r
          \<and> getitem (rows ! j) ''product_purchase_order_id'' = Inr ppo
          \<and> vat = (if truthy ppo
                   then (case vat_lookup d ppo of Some (Some v) \<Rightarrow> v | _ \<Rightarrow> 0)
                   else 0)
          \<and> map_of (map stored_detail ps ! j) ''amount_exclude_vat'' =
              Some (PyNum (py_round2 (c * q * r)))
          \<and> map_of (map stored_detail ps ! j) ''amount'' =
              Some (PyNum (py_round2 (py_round2 (c * q * r) * (1 + vat / 100))))
          \<and> map_of (map stored_detail ps ! j) ''vat_gst'' = Some (PyNum vat)"
    if j: "j < length rows" for j
  proof -
    from lines j have "detail_params env d (dict_get_default idata ''po_to_invoice_rate'' (PyNum 1))
          (invoice_auto_increment d) j (rows ! j) = Inr (ps ! j)" by blast
    then obtain c q r vat ppo where
      "unit_cost_of env (rows ! j) = Inr c"
      "getitem (rows ! j) ''uninvoiced_quantity'' = Inr (PyNum q)"
      "dict_get_default idata ''po_to_invoice_rate'' (PyNum 1) = PyNum r"
      "getitem (rows ! j) ''product_purchase_order_id'' = Inr ppo"
      "vat = (if truthy ppo
              then (case vat_lookup d ppo of Some (Some v) \<Rightarrow> v | _ \<Rightarrow> 0)
              else 0)"
      "map_of (stored_detail (ps ! j)) ''amount_exclude_vat'' =
         Some (PyNum (py_round2 (c * q * r)))"
      "map_of (stored_detail (ps ! j)) ''amount'' =
         Some (PyNum (py_round2 (py_round2 (c * q * r) * (1 + vat / 100))))"
      "map_of (stored_detail (ps ! j)) ''vat_gst'' = Some (PyNum vat)"
      by (rule detail_params_amounts)
    then show ?thesis using j len by auto
  qed
  then show ?thesis
    using d' len by (intro exI [of _ "map stored_detail ps"]) simp
qed

text \<open>The two lines of the example invoice satisfy the hypothesis.\<close>

theorem detail_line_amounts_witness:
  "\<exists>ps. purchase_invoice_details
          (snd (create_purchase_invoice env_ok db_example invoice_data_example rows_example ''alice'')) =
               purchase_invoice_details db_example @ ps
            \<and> length ps = length rows_example
            \<and> (\<forall>j < length rows_example. \<exists>c q r vat ppo.
                  unit_cost_of env_ok (rows_example ! j) = Inr c
                  \<and> getitem (rows_example ! j) ''uninvoiced_quantity'' = Inr (PyNum q)
                  \<and> dict_get_default invoice_data_example ''po_to_invoice_rate'' (PyNum 1) = PyNum r
                  \<and> getitem (rows_example ! j) ''product_purchase_order_id'' = Inr ppo
                  \<and> vat = (if truthy ppo
                           then (case vat_lookup db_example ppo of Some (Some v) \<Rightarrow> v | _ \<Rightarrow> 0)
                           else 0)
                  \<and> map_of (ps ! j) ''amount_exclude_vat'' = Some (PyNum (py_round2 (c * q * r)))
                  \<and> map_of (ps ! j) ''amount'' =
                      Some (PyNum (py_round2 (py_round2 (c * q * r) * (1 + vat / 100))))
                  \<and> map_of (ps ! j) ''vat_gst'' = Some (PyNum vat))"
  using create_example_ok by (rule detail_line_amounts)

subsection \<open>The header total excluding VAT\<close>

lemma py_round2_eleven: "py_round2 11 = 11"
  using py_round2_near [of 11 1100] by simp

lemma create_third_decimal:
  "create_purchase_invoice env_ok db_example invoice_data_example rows_third_decimal ''alice'' =
     ((True, ''Invoice V-INV20261104-121-P created successfully'', Some 1),
      db_example\<lparr>purchase_invoices :=
          [(1, [(''invoice_number'', PyStr ''V-INV20261104-121-P''),
                (''invoiced_date'', PyStr ''2026-11-04''),
                (''due_date'', PyStr ''2026-12-04''),
                (''total_invoiced_amount'', PyNum 1650),
                (''total_invoiced_amount_exclude_vat'', PyNum (2001 / 100)),
                (''seller_id'', PyNum 1),
                (''buyer_id'', PyNum 2),
                (''currency_id'', PyNum 1),
                (''payment_term_id'', PyNum 3),
                (''created_by'', PyStr ''kc-1''),
                (''created_date'', PyStr ''2026-11-04 09:05:07''),
                (''delete_flag'', PyNum 0)])],
        purchase_invoice_details :=
          [[(''purchase_invoice_id'', PyNum 1),
            (''purchase_order_id'', PyNum 5),
            (''product_purchase_order_id'', PyNum 7),
            (''arrival_detail_id'', PyNum 101),
            (''purchased_invoice_quantity'', PyNum 1),
            (''invoiced_quantity'', PyNum 1),
            (''amount'', PyNum 11),
            (''amount_exclude_vat'', PyNum 10),
            (''vat_gst'', PyNum 10),
            (''exchange_rate'', PyNum 1),
            (''delete_flag'', PyNum 0)],
           [(''purchase_invoice_id'', PyNum 1),
            (''purchase_order_id'', PyNum 5),
            (''product_purchase_order_id'', PyNum 7),
            (''arrival_detail_id'', PyNum 102),
            (''purchased_invoice_quantity'', PyNum 1),
            (''invoiced_quantity'', PyNum 1),
            (''amount'', PyNum 11),
            (''amount_exclude_vat'', PyNum 10),
            (''vat_gst'', PyNum 10),
            (''exchange_rate'', PyNum 1),
            (''delete_flag'', PyNum 0)]],
        invoice_auto_increment := 2\<rparr>)"
  by (simp add: create_purchase_invoice_def transaction_body_def rows_third_decimal_def
        resolve_example line_base_def unit_cost_example detail_row_items vat_example
        invoice_data_example_items header_example detail_params_def
        stored_header_def stored_detail_def env_ok_sel db_example_sel
        py_round2_example py_round2_eleven Let_def)

lemma create_third_decimal_ok:
  "fst (fst (create_purchase_invoice env_ok db_example invoice_data_example rows_third_decimal
               ''alice''))"
  by (simp add: create_third_decimal)

text \<open>
  Claim C2, as stated, equates the header's \<open>total_invoiced_amount_exclude_vat\<close> with
  the sum of the persisted per-line \<open>amount_exclude_vat\<close> values. The header rounds
  the sum of the unrounded line amounts, the lines are rounded one by one: two lines of
  one unit at 10.004 give a header total of 20.01, while the two persisted line amounts
  are 10.00 and 10.00.
\<close>

theorem header_total_counterexample:
  "map (\<lambda>h. map_of (snd h) ''total_invoiced_amount_exclude_vat'')
       (purchase_invoices (snd (create_purchase_invoice env_ok db_example invoice_data_example
                                  rows_third_decimal ''alice''))) =
     [Some (PyNum (2001 / 100))]
   \<and> map (\<lambda>p. map_of p ''amount_exclude_vat'')
       (purchase_invoice_details (snd (create_purchase_invoice env_ok db_example
                                         invoice_data_example rows_third_decimal ''alice''))) =
     [Some (PyNum 10), Some (PyNum 10)]"
  by (simp add: create_third_decimal)

text \<open>
  Claim C2, amended. For every invoice persisted by \<open>create_purchase_invoice\<close> the
  header field \<open>total_invoiced_amount_exclude_vat\<close> is
  \<open>round(\<Sum> unit_cost \<times> quantity \<times> po_to_invoice_rate, 2)\<close>, the sum running over the
  unrounded amounts of the lines, while each detail row holds the rounded amount of its
  own line; the header total differs from the sum of the persisted line amounts by at
  most \<open>(n + 1) \<times> 0.005\<close> for \<open>n\<close> lines.
\<close>

theorem header_total_exclude_vat:
  assumes "fst (fst (create_purchase_invoice env d idata rows user))"
  shows "\<exists>hp ps bs.
      purchase_invoices (snd (create_purchase_invoice env d idata rows user)) =
        purchase_invoices d @ [(invoice_auto_increment d, hp)]
    \<and> purchase_invoice_details (snd (create_purchase_invoice env d idata rows user)) =
        purchase_invoice_details d @ ps
    \<and> length ps = length rows
    \<and> length bs = length rows
    \<and> (\<forall>j < length rows.
          line_base env (dict_get_default idata ''po_to_invoice_rate'' (PyNum 1)) (rows ! j) =
            Inr (bs ! j)
          \<and> map_of (ps ! j) ''amount_exclude_vat'' = Some (PyNum (py_round2 (bs ! j))))
    \<and> map_of hp ''total_invoiced_amount_exclude_vat'' = Some (PyNum (py_round2 (sum_list bs)))
    \<and> \<bar>py_round2 (sum_list bs) - sum_list (map py_round2 bs)\<bar>
         \<le> (of_nat (length rows) + 1) / 200"
proof -
  let ?rate = "dict_get_default idata ''po_to_invoice_rate'' (PyNum 1)"
  from create_purchase_invoice_succeeded [OF assms] obtain kc tot hp ps where
    tot: "sum_base env ?rate rows 0 = Inr tot"
    and hp: "header_params idata tot kc = Inr hp"
    and len: "length ps = length rows"
    and lines: "\<forall>j < length rows.
        detail_params env d ?rate (invoice_auto_increment d) j (rows ! j) = Inr (ps ! j)"
    and d': "snd (create_purchase_invoice env d idata rows user) =
       d\<lparr>purchase_invoices :=
            purchase_invoices d @ [(invoice_auto_increment d, stored_header env hp)],
          purchase_invoice_details := purchase_invoice_details d @ map stored_detail ps,
          invoice_auto_increment := invoice_auto_increment d + 1\<rparr>"
    by blast
  from sum_base_Inr [OF tot] obtain bs where
    lbs: "length bs = length rows"
    and base: "\<forall>j < length rows. line_base env ?rate (rows ! j) = Inr (bs ! j)"
    and sum: "tot = sum_list bs" by auto
  have line: "map_of (map stored_detail ps ! j) ''amount_exclude_vat'' =
                Some (PyNum (py_round2 (bs ! j)))"
    if j: "j < length rows" for j
  proof -
    from lines j have "detail_params env d ?rate (invoice_auto_increment d) j (rows ! j) =
        Inr (ps ! j)" by blast
    then obtain c q r where
      c: "unit_cost_of env (rows ! j) = Inr c"
      and q: "getitem (rows ! j) ''uninvoiced_quantity'' = Inr (PyNum q)"
      and r: "?rate = PyNum r"
      and a: "map_of (stored_detail (ps ! j)) ''amount_exclude_vat'' =
                Some (PyNum (py_round2 (c * q * r)))"
      by (rule detail_params_amounts)
    from base j have "line_base env ?rate (rows ! j) = Inr (bs ! j)" by blast
    then obtain c' q' r' where
      "unit_cost_of env (rows ! j) = Inr c'"
      "getitem (rows ! j) ''uninvoiced_quantity'' = Inr (PyNum q')"
      "?rate = PyNum r'" "bs ! j = c' * q' * r'"
      by (rule line_base_Inr)
    with c q r have "bs ! j = c * q * r" by simp
    with a j len show ?thesis by simp
  qed
  have total: "map_of (stored_header env hp) ''total_invoiced_amount_exclude_vat'' =
                 Some (PyNum (py_round2 (sum_list bs)))"
    using header_params_total [OF hp] sum by simp
  have bound: "\<bar>py_round2 (sum_list bs) - sum_list (map py_round2 bs)\<bar>
         \<le> (of_nat (length rows) + 1) / 200"
    using sum_round_error [of bs] lbs by simp
  show ?thesis
    using d' len lbs base line total bound
    by (intro exI [of _ "stored_header env hp"] exI [of _ "map stored_detail ps"] exI [of _ bs])
       simp
qed

text \<open>The invoice of the two lines at 10.004 satisfies the hypothesis.\<close>

theorem header_total_exclude_vat_witness:
  "\<exists>hp ps bs.
      purchase_invoices (snd (create_purchase_invoice env_ok db_example invoice_data_example
                                rows_third_decimal ''alice'')) =
        purchase_invoices db_example @ [(invoice_auto_increment db_example, hp)]
    \<and> purchase_invoice_details (snd (create_purchase_invoice env_ok db_example
                                       invoice_data_example rows_third_decimal ''alice'')) =
        purchase_invoice_details db_example @ ps
    \<and> length ps = length rows_third_decimal
    \<and> length bs = length rows_third_decimal
    \<and> (\<forall>j < length rows_third_decimal.
          line_base env_ok (dict_get_default invoice_data_example ''po_to_invoice_rate'' (PyNum 1))
            (rows_third_decimal ! j) = Inr (bs ! j)
          \<and> map_of (ps ! j) ''amount_exclude_vat'' = Some (PyNum (py_round2 (bs ! j))))
    \<and> map_of hp ''total_invoiced_amount_exclude_vat'' = Some (PyNum (py_round2 (sum_list bs)))
    \<and> \<bar>py_round2 (sum_list bs) - sum_list (map py_round2 bs)\<bar>
         \<le> (of_nat (length rows_third_decimal) + 1) / 200"
  using create_third_decimal_ok by (rule header_total_exclude_vat)

subsection \<open>Lines without a VAT rate\<close>

lemma getitem_dict_get: "getitem row k = Inr v \<Longrightarrow> dict_get row k = v"
  by (auto simp: getitem_def dict_get_def split: option.splits)

lemma create_no_ppo_column:
  "create_purchase_invoice env_ok db_example invoice_data_example rows_no_ppo_column ''alice'' =
     ((False, ''Error creating invoice: '' @ exn_str (KeyError ''product_purchase_order_id''), None),
      db_example)"
  by (simp add: create_purchase_invoice_def transaction_body_def rows_no_ppo_column_def
        resolve_example line_base_def unit_cost_of_def getitem_def first_token_example
        parse_decimal_example vat_percent_of_def
        invoice_data_example_items header_example detail_params_def
        env_ok_sel db_example_sel py_round2_example Let_def)

lemma create_null_vat:
  "create_purchase_invoice env_ok db_example invoice_data_example rows_null_vat ''alice'' =
     ((True, ''Invoice V-INV20261104-121-P created successfully'', Some 1),
      db_example\<lparr>purchase_invoices :=
          [(1, [(''invoice_number'', PyStr ''V-INV20261104-121-P''),
                (''invoiced_date'', PyStr ''2026-11-04''),
                (''due_date'', PyStr ''2026-12-04''),
                (''total_invoiced_amount'', PyNum 1650),
                (''total_invoiced_amount_exclude_vat'', PyNum 1000),
                (''seller_id'', PyNum 1),
                (''buyer_id'', PyNum 2),
                (''currency_id'', PyNum 1),
                (''payment_term_id'', PyNum 3),
                (''created_by'', PyStr ''kc-1''),
                (''created_date'', PyStr ''2026-11-04 09:05:07''),
                (''delete_flag'', PyNum 0)])],
        purchase_invoice_details :=
          [[(''purchase_invoice_id'', PyNum 1),
            (''purchase_order_id'', PyNum 5),
            (''product_purchase_order_id'', PyNum 8),
            (''arrival_detail_id'', PyNum 101),
            (''purchased_invoice_quantity'', PyNum 10),
            (''invoiced_quantity'', PyNum 10),
            (''amount'', PyNum 1000),
            (''amount_exclude_vat'', PyNum 1000),
            (''vat_gst'', PyNum 0),
            (''exchange_rate'', PyNum 1),
            (''delete_flag'', PyNum 0)]],
        invoice_auto_increment := 2\<rparr>)"
  by (simp add: create_purchase_invoice_def transaction_body_def rows_null_vat_def
        resolve_example line_base_def unit_cost_example detail_row_items vat_example
        invoice_data_example_items header_example detail_params_def
        stored_header_def stored_detail_def env_ok_sel db_example_sel
        py_round2_example Let_def)

lemma create_null_vat_ok:
  "fst (fst (create_purchase_invoice env_ok db_example invoice_data_example rows_null_vat ''alice''))"
  by (simp add: create_null_vat)

lemma null_vat_lookup:
  "vat_lookup db_example (dict_get (rows_null_vat ! 0) ''product_purchase_order_id'') = Some None"
  by (simp add: rows_null_vat_def detail_row_items vat_lookup_def db_example_sel)

text \<open>
  Claim C10, as stated, includes the row that carries no \<open>product_purchase_order_id\<close>
  among the lines persisted with a zero rate. A row in which the column itself is
  absent passes the VAT guard, but the detail parameters then read
  \<open>row['product_purchase_order_id']\<close>: the KeyError is caught, the transaction is rolled
  back and no line is persisted.
\<close>

theorem missing_vat_counterexample:
  "create_purchase_invoice env_ok db_example invoice_data_example rows_no_ppo_column ''alice'' =
     ((False, ''Error creating invoice: '' @ exn_str (KeyError ''product_purchase_order_id''), None),
      db_example)"
  by (rule create_no_ppo_column)

text \<open>
  Claim C10, amended. When a line's \<open>product_purchase_order_id\<close> is present but empty
  (None or 0), or the write-time VAT lookup yields no \<open>product_purchase_orders\<close> row
  or a NULL \<open>vat_gst\<close>, a successful \<open>create_purchase_invoice\<close> has persisted that
  line with \<open>vat_gst = 0\<close> and with its VAT-inclusive amount equal to its VAT-exclusive
  amount; no rate carried by the selected row is used.
\<close>

theorem missing_vat_rate_is_zero:
  assumes "fst (fst (create_purchase_invoice env d idata rows user))"
  shows "\<exists>ps. purchase_invoice_details (snd (create_purchase_invoice env d idata rows user)) =
               purchase_invoice_details d @ ps
            \<and> length ps = length rows
            \<and> (\<forall>j < length rows.
                  (\<not> truthy (dict_get (rows ! j) ''product_purchase_order_id'')
                   \<or> vat_lookup d (dict_get (rows ! j) ''product_purchase_order_id'') = None
                   \<or> vat_lookup d (dict_get (rows ! j) ''product_purchase_order_id'') = Some None)
                  \<longrightarrow> map_of (ps ! j) ''vat_gst'' = Some (PyNum 0)
                      \<and> map_of (ps ! j) ''amount'' = map_of (ps ! j) ''amount_exclude_vat'')"
proof -
  from create_purchase_invoice_succeeded [OF assms] obtain hp ps where
    len: "length ps = length rows"
    and lines: "\<forall>j < length rows.
        detail_params env d (dict_get_default idata ''po_to_invoice_rate'' (PyNum 1))
          (invoice_auto_increment d) j (rows ! j) = Inr (ps ! j)"
    and d': "snd (create_purchase_invoice env d idata rows user) =
       d\<lparr>purchase_invoices :=
            purchase_invoices d @ [(invoice_auto_increment d, stored_header env hp)],
          purchase_invoice_details := purchase_invoice_details d @ map stored_detail ps,
          invoice_auto_increment := invoice_auto_increment d + 1\<rparr>"
    by blast
  have "map_of (map stored_detail ps ! j) ''vat_gst'' = Some (PyNum 0)
        \<and> map_of (map stored_detail ps ! j) ''amount'' =
            map_of (map stored_detail ps ! j) ''amount_exclude_vat''"
    if j: "j < length rows"
      and norate: "\<not> truthy (dict_get (rows ! j) ''product_purchase_order_id'')
                   \<or> vat_lookup d (dict_get (rows ! j) ''product_purchase_order_id'') = None
                   \<or> vat_lookup d (dict_get (rows ! j) ''product_purchase_order_id'') = Some None"
    for j
  proof -
    from lines j have "detail_params env d (dict_get_default idata ''po_to_invoice_rate'' (PyNum 1))
          (invoice_auto_increment d) j (rows ! j) = Inr (ps ! j)" by blast
    then obtain c q r vat ppo where
      ppo: "getitem (rows ! j) ''product_purchase_order_id'' = Inr ppo"
      and vat: "vat = (if truthy ppo
              then (case vat_lookup d ppo of Some (Some v) \<Rightarrow> v | _ \<Rightarrow> 0)
              else 0)"
      and a: "map_of (stored_detail (ps ! j)) ''amount_exclude_vat'' =
         Some (PyNum (py_round2 (c * q * r)))"
      "map_of (stored_detail (ps ! j)) ''amount'' =
         Some (PyNum (py_round2 (py_round2 (c * q * r) * (1 + vat / 100))))"
      "map_of (stored_detail (ps ! j)) ''vat_gst'' = Some (PyNum vat)"
      by (rule detail_params_amounts)
    have "dict_get (rows ! j) ''product_purchase_order_id'' = ppo"
      using ppo by (rule getitem_dict_get)
    with norate vat have "vat = 0" by auto
    with a j len show ?thesis by (simp add: py_round2_idem)
  qed
  then show ?thesis
    using d' len by (intro exI [of _ "map stored_detail ps"]) simp
qed

text \<open>The example line on purchase-order line 8, whose VAT rate is NULL.\<close>

theorem missing_vat_rate_is_zero_witness:
  "(\<exists>ps. purchase_invoice_details
          (snd (create_purchase_invoice env_ok db_example invoice_data_example rows_null_vat ''alice'')) =
               purchase_invoice_details db_example @ ps
            \<and> length ps = length rows_null_vat
            \<and> (\<forall>j < length rows_null_vat.
                  (\<not> truthy (dict_get (rows_null_vat ! j) ''product_purchase_order_id'')
                   \<or> vat_lookup db_example (dict_get (rows_null_vat ! j) ''product_purchase_order_id'') = None
                   \<or> vat_lookup db_example (dict_get (rows_null_vat ! j) ''product_purchase_order_id'') = Some None)
                  \<longrightarrow> map_of (ps ! j) ''vat_gst'' = Some (PyNum 0)
                      \<and> map_of (ps ! j) ''amount'' = map_of (ps ! j) ''amount_exclude_vat''))
   \<and> vat_lookup db_example (dict_get (rows_null_vat ! 0) ''product_purchase_order_id'') = Some None"
  using missing_vat_rate_is_zero [OF create_null_vat_ok] null_vat_lookup by (rule conjI)

subsection \<open>A missing conversion rate\<close>

lemma map_of_extra_key:
  "k \<noteq> k0 \<Longrightarrow> map_of (idata @ [(k0, v)]) k = map_of idata k"
  by (simp add: map_add_def split: option.splits)

lemma getitem_extra_key:
  "k \<noteq> k0 \<Longrightarrow> getitem (idata @ [(k0, v)]) k = getitem idata k"
  by (simp add: getitem_def map_of_extra_key del: map_of_append)

lemma dict_get_extra_key:
  "k \<noteq> k0 \<Longrightarrow> dict_get (idata @ [(k0, v)]) k = dict_get idata k"
  by (simp add: dict_get_def map_of_extra_key del: map_of_append)

lemma rate_default:
  assumes "map_of idata ''po_to_invoice_rate'' = None"
  shows "dict_get_default idata ''po_to_invoice_rate'' (PyNum 1) = PyNum 1"
    and "dict_get_default (idata @ [(''po_to_invoice_rate'', PyNum 1)]) ''po_to_invoice_rate''
           (PyNum 1) = PyNum 1"
  using assms by (simp_all add: dict_get_default_def map_add_def)

lemma header_params_extra_rate:
  "header_params (idata @ [(''po_to_invoice_rate'', v)]) tot kc = header_params idata tot kc"
  by (simp add: header_params_def getitem_extra_key dict_get_extra_key)

lemma log_success_extra_rate:
  "log_success (idata @ [(''po_to_invoice_rate'', v)]) = log_success idata"
  by (simp add: log_success_def getitem_extra_key cong: pyval.case_cong)

lemma invoice_number_extra_rate:
  "getitem (idata @ [(''po_to_invoice_rate'', v)]) ''invoice_number'' =
   getitem idata ''invoice_number''"
  by (simp add: getitem_extra_key)

lemma transaction_body_extra_rate:
  assumes "map_of idata ''po_to_invoice_rate'' = None"
  shows "transaction_body env d (idata @ [(''po_to_invoice_rate'', PyNum 1)]) rows user =
         transaction_body env d idata rows user"
  unfolding transaction_body_def rate_default [OF assms] header_params_extra_rate
    log_success_extra_rate invoice_number_extra_rate ..

lemma create_extra_rate:
  assumes "map_of idata ''po_to_invoice_rate'' = None"
  shows "create_purchase_invoice env d (idata @ [(''po_to_invoice_rate'', PyNum 1)]) rows user =
         create_purchase_invoice env d idata rows user"
  by (simp add: create_purchase_invoice_def transaction_body_extra_rate [OF assms])

lemma invoice_data_example_no_rate: "map_of invoice_data_example ''po_to_invoice_rate'' = None"
  by (simp add: invoice_data_example_def)

text \<open>
  Claim C9. When \<open>invoice_data\<close> has no \<open>po_to_invoice_rate\<close> key, the call does
  exactly what it does when the key is present with the value 1.0: the absence raises
  nothing and changes nothing. A successful run has computed the header total and
  every line amount with the rate 1 and stored \<open>exchange_rate = 1.0\<close> on every detail
  row.
\<close>

theorem missing_rate_defaults_to_one:
  assumes "map_of idata ''po_to_invoice_rate'' = None"
  shows "create_purchase_invoice env d idata rows user =
           create_purchase_invoice env d (idata @ [(''po_to_invoice_rate'', PyNum 1)]) rows user
       \<and> (fst (fst (create_purchase_invoice env d idata rows user)) \<longrightarrow>
           (\<exists>hp ps tot.
              purchase_invoices (snd (create_purchase_invoice env d idata rows user)) =
                purchase_invoices d @ [(invoice_auto_increment d, hp)]
            \<and> purchase_invoice_details (snd (create_purchase_invoice env d idata rows user)) =
                purchase_invoice_details d @ ps
            \<and> length ps = length rows
            \<and> sum_base env (PyNum 1) rows 0 = Inr tot
            \<and> map_of hp ''total_invoiced_amount_exclude_vat'' = Some (PyNum (py_round2 tot))
            \<and> (\<forall>j < length rows. \<exists>c q.
                  unit_cost_of env (rows ! j) = Inr c
                  \<and> getitem (rows ! j) ''uninvoiced_quantity'' = Inr (PyNum q)
                  \<and> map_of (ps ! j) ''amount_exclude_vat'' = Some (PyNum (py_round2 (c * q * 1)))
                  \<and> map_of (ps ! j) ''exchange_rate'' = Some (PyNum 1))))"
proof (intro conjI impI)
  show "create_purchase_invoice env d idata rows user =
           create_purchase_invoice env d (idata @ [(''po_to_invoice_rate'', PyNum 1)]) rows user"
    using create_extra_rate [OF assms] by simp
next
  assume ok: "fst (fst (create_purchase_invoice env d idata rows user))"
  have rate: "dict_get_default idata ''po_to_invoice_rate'' (PyNum 1) = PyNum 1"
    using assms by (rule rate_default)
  from create_purchase_invoice_succeeded [OF ok] obtain kc tot hp ps where
    tot: "sum_base env (PyNum 1) rows 0 = Inr tot"
    and hp: "header_params idata tot kc = Inr hp"
    and len: "length ps = length rows"
    and lines: "\<forall>j < length rows.
        detail_params env d (PyNum 1) (invoice_auto_increment d) j (rows ! j) = Inr (ps ! j)"
    and d': "snd (create_purchase_invoice env d idata rows user) =
       d\<lparr>purchase_invoices :=
            purchase_invoices d @ [(invoice_auto_increment d, stored_header env hp)],
          purchase_invoice_details := purchase_invoice_details d @ map stored_detail ps,
          invoice_auto_increment := invoice_auto_increment d + 1\<rparr>"
    unfolding rate by blast
  have line: "\<exists>c q. unit_cost_of env (rows ! j) = Inr c
              \<and> getitem (rows ! j) ''uninvoiced_quantity'' = Inr (PyNum q)
              \<and> map_of (map stored_detail ps ! j) ''amount_exclude_vat'' =
                  Some (PyNum (py_round2 (c * q * 1)))
              \<and> map_of (map stored_detail ps ! j) ''exchange_rate'' = Some (PyNum 1)"
    if j: "j < length rows" for j
  proof -
    from lines j have "detail_params env d (PyNum 1) (invoice_auto_increment d) j (rows ! j) =
        Inr (ps ! j)" by blast
    then obtain c q r where
      "unit_cost_of env (rows ! j) = Inr c"
      "getitem (rows ! j) ''uninvoiced_quantity'' = Inr (PyNum q)"
      "PyNum 1 = PyNum r"
      "map_of (stored_detail (ps ! j)) ''amount_exclude_vat'' =
         Some (PyNum (py_round2 (c * q * r)))"
      "map_of (stored_detail (ps ! j)) ''exchange_rate'' = Some (PyNum r)"
      by (rule detail_params_amounts)
    then show ?thesis using j len by auto
  qed
  have total: "map_of (stored_header env hp) ''total_invoiced_amount_exclude_vat'' =
                 Some (PyNum (py_round2 tot))"
    using hp by (rule header_params_total)
  show "\<exists>hp ps tot.
              purchase_invoices (snd (create_purchase_invoice env d idata rows user)) =
                purchase_invoices d @ [(invoice_auto_increment d, hp)]
            \<and> purchase_invoice_details (snd (create_purchase_invoice env d idata rows user)) =
                purchase_invoice_details d @ ps
            \<and> length ps = length rows
            \<and> sum_base env (PyNum 1) rows 0 = Inr tot
            \<and> map_of hp ''total_invoiced_amount_exclude_vat'' = Some (PyNum (py_round2 tot))
            \<and> (\<forall>j < length rows. \<exists>c q.
                  unit_cost_of env (rows ! j) = Inr c
                  \<and> getitem (rows ! j) ''uninvoiced_quantity'' = Inr (PyNum q)
                  \<and> map_of (ps ! j) ''amount_exclude_vat'' = Some (PyNum (py_round2 (c * q * 1)))
                  \<and> map_of (ps ! j) ''exchange_rate'' = Some (PyNum 1))"
    using d' len tot total line
    by (intro exI [of _ "stored_header env hp"] exI [of _ "map stored_detail ps"] exI [of _ tot])
       simp
qed

text \<open>The example invoice data carry no rate, and the example invoice is created.\<close>

theorem missing_rate_defaults_to_one_witness:
  "create_purchase_invoice env_ok db_example invoice_data_example rows_example ''alice'' =
     create_purchase_invoice env_ok db_example
       (invoice_data_example @ [(''po_to_invoice_rate'', PyNum 1)]) rows_example ''alice''
   \<and> (\<exists>hp ps tot.
          purchase_invoices (snd (create_purchase_invoice env_ok db_example invoice_data_example
                                    rows_example ''alice'')) =
            purchase_invoices db_example @ [(invoice_auto_increment db_example, hp)]
        \<and> purchase_invoice_details (snd (create_purchase_invoice env_ok db_example
                                           invoice_data_example rows_example ''alice'')) =
            purchase_invoice_details db_example @ ps
        \<and> length ps = length rows_example
        \<and> sum_base env_ok (PyNum 1) rows_example 0 = Inr tot
        \<and> map_of hp ''total_invoiced_amount_exclude_vat'' = Some (PyNum (py_round2 tot))
        \<and> (\<forall>j < length rows_example. \<exists>c q.
              unit_cost_of env_ok (rows_example ! j) = Inr c
              \<and> getitem (rows_example ! j) ''uninvoiced_quantity'' = Inr (PyNum q)
              \<and> map_of (ps ! j) ''amount_exclude_vat'' = Some (PyNum (py_round2 (c * q * 1)))
              \<and> map_of (ps ! j) ''exchange_rate'' = Some (PyNum 1)))"
  using missing_rate_defaults_to_one [OF invoice_data_example_no_rate,
          of env_ok db_example rows_example "''alice''"] create_example_ok
  by blast

subsection \<open>Repeated lines in the selection\<close>

lemma drop_duplicates_keys:
  "(\<lambda>r. map_of r col) ` set (drop_duplicates col rows) = (\<lambda>r. map_of r col) ` set rows"
  by (induction col rows rule: drop_duplicates.induct) auto

lemma drop_duplicates_subset: "set (drop_duplicates col rows) \<subseteq> set rows"
  by (induction col rows rule: drop_duplicates.induct) auto

lemma drop_duplicates_idem:
  "drop_duplicates col (drop_duplicates col rows) = drop_duplicates col rows"
proof (induction col rows rule: drop_duplicates.induct)
  case (1 col)
  then show ?case by simp
next
  case (2 col row rows)
  have "filter (\<lambda>r. map_of r col \<noteq> map_of row col)
          (drop_duplicates col (filter (\<lambda>r. map_of r col \<noteq> map_of row col) rows)) =
        drop_duplicates col (filter (\<lambda>r. map_of r col \<noteq> map_of row col) rows)"
    using drop_duplicates_subset [of col "filter (\<lambda>r. map_of r col \<noteq> map_of row col) rows"]
    by (intro filter_True) auto
  then show ?case using 2 by simp
qed

lemma drop_duplicates_repeat:
  assumes "\<exists>x \<in> set xs. map_of x col = map_of r col"
  shows "drop_duplicates col (xs @ r # ys) = drop_duplicates col (xs @ ys)"
  using assms
proof (induction col xs arbitrary: ys rule: drop_duplicates.induct)
  case (1 col)
  then show ?case by simp
next
  case (2 col row rows)
  let ?P = "\<lambda>x. map_of x col \<noteq> map_of row col"
  show ?case
  proof (cases "map_of r col = map_of row col")
    case True
    then show ?thesis by simp
  next
    case False
    with "2.prems" obtain x where "x \<in> set rows" "map_of x col = map_of r col"
      by auto
    with False have "\<exists>x \<in> set (filter ?P rows). map_of x col = map_of r col"
      by auto
    from "2.IH" [OF this, of "filter ?P ys"] False show ?thesis by simp
  qed
qed

lemma list_ex_drop_duplicates:
  "list_ex (\<lambda>r. map_of r col = None) (drop_duplicates col rows) =
   list_ex (\<lambda>r. map_of r col = None) rows"
proof
  assume "list_ex (\<lambda>r. map_of r col = None) (drop_duplicates col rows)"
  then obtain r where "r \<in> set (drop_duplicates col rows)" "map_of r col = None"
    unfolding list_ex_iff by blast
  then have "r \<in> set rows" using drop_duplicates_subset [of col rows] by blast
  with \<open>map_of r col = None\<close> show "list_ex (\<lambda>r. map_of r col = None) rows"
    unfolding list_ex_iff by blast
next
  assume "list_ex (\<lambda>r. map_of r col = None) rows"
  then obtain r where "r \<in> set rows" "map_of r col = None"
    unfolding list_ex_iff by blast
  then have "None \<in> (\<lambda>r. map_of r col) ` set rows" by force
  then have "None \<in> (\<lambda>r. map_of r col) ` set (drop_duplicates col rows)"
    by (simp only: drop_duplicates_keys)
  then obtain r' where "r' \<in> set (drop_duplicates col rows)" "map_of r' col = None"
    by force
  then show "list_ex (\<lambda>r. map_of r col = None) (drop_duplicates col rows)"
    unfolding list_ex_iff by blast
qed

lemma list_ex_repeat:
  assumes "\<exists>x \<in> set xs. map_of x col = map_of r col"
  shows "list_ex (\<lambda>r. map_of r col = None) (xs @ r # ys) =
         list_ex (\<lambda>r. map_of r col = None) (xs @ ys)"
proof -
  obtain x where x: "x \<in> set xs" "map_of x col = map_of r col"
    using assms by blast
  have "list_ex (\<lambda>r. map_of r col = None) xs" if "map_of r col = None"
    unfolding list_ex_iff using x that by (intro bexI [of _ x]) simp_all
  then show ?thesis by (cases "map_of r col = None") auto
qed

lemma rows_example_distinct:
  "drop_duplicates ''arrival_detail_id'' rows_example = rows_example"
  by (simp add: rows_example_def detail_row_def)

lemma rows_example_has_ids:
  "list_ex (\<lambda>r. map_of r ''arrival_detail_id'' = None) rows_example = False"
  by (simp add: rows_example_def detail_row_def)

lemma confirm_example:
  "confirm_create_invoice env_ok db_example invoice_data_example rows_example ''alice'' =
     create_purchase_invoice env_ok db_example invoice_data_example rows_example ''alice''"
  by (simp only: confirm_create_invoice_def rows_example_distinct rows_example_has_ids if_False)

text \<open>
  Claim C4. The submission step removes duplicates by the line's identifier
  (\<open>arrival_detail_id\<close>) before \<open>create_purchase_invoice\<close> aggregates anything.
  Hence submitting a frame gives the same result, and leaves the same database
  (header total and detail amounts included), as submitting the deduplicated frame;
  and a line whose identifier already occurs earlier in the frame changes nothing.
  \<open>create_purchase_invoice\<close> itself does not deduplicate: the invariance is that of
  the submission path.
\<close>

theorem confirm_create_invoice_dedup:
  "confirm_create_invoice env d idata rows user =
     confirm_create_invoice env d idata (drop_duplicates ''arrival_detail_id'' rows) user
   \<and> ((\<exists>x \<in> set xs. map_of x ''arrival_detail_id'' = map_of r ''arrival_detail_id'') \<longrightarrow>
        confirm_create_invoice env d idata (xs @ r # ys) user =
          confirm_create_invoice env d idata (xs @ ys) user)"
proof (intro conjI impI)
  show "confirm_create_invoice env d idata rows user =
     confirm_create_invoice env d idata (drop_duplicates ''arrival_detail_id'' rows) user"
    unfolding confirm_create_invoice_def list_ex_drop_duplicates drop_duplicates_idem ..
next
  assume rep: "\<exists>x \<in> set xs. map_of x ''arrival_detail_id'' = map_of r ''arrival_detail_id''"
  show "confirm_create_invoice env d idata (xs @ r # ys) user =
          confirm_create_invoice env d idata (xs @ ys) user"
    unfolding confirm_create_invoice_def list_ex_repeat [OF rep] drop_duplicates_repeat [OF rep] ..
qed

text \<open>The example frame with its first line selected once more: the example invoice.\<close>

theorem confirm_create_invoice_dedup_witness:
  "confirm_create_invoice env_ok db_example invoice_data_example
     (rows_example @ detail_row ''100.00 USD'' 10 7 101 # []) ''alice'' =
   create_purchase_invoice env_ok db_example invoice_data_example rows_example ''alice''"
proof -
  have rep: "\<exists>x \<in> set rows_example.
           map_of x ''arrival_detail_id'' =
           map_of (detail_row ''100.00 USD'' 10 7 101) ''arrival_detail_id''"
    by (simp add: rows_example_def)
  have "confirm_create_invoice env_ok db_example invoice_data_example
          (rows_example @ detail_row ''100.00 USD'' 10 7 101 # []) ''alice'' =
        confirm_create_invoice env_ok db_example invoice_data_example (rows_example @ []) ''alice''"
    using rep by (rule confirm_create_invoice_dedup [THEN conjunct2, rule_format])
  also have "\<dots> = create_purchase_invoice env_ok db_example invoice_data_example rows_example ''alice''"
    by (simp only: append_Nil2 confirm_example)
  finally show ?thesis .
qed

end
